theory Spec2Isabelle
  imports Main "HOL-Library.Word"
begin

section \<open>Constants used by CameraService.cpp\<close>

text \<open>
  Modelled from the spec: the constants below are declared in headers that are not
  part of \<^verbatim>\<open>CameraService.cpp\<close> (\<^verbatim>\<open>utils/Errors.h\<close>, \<^verbatim>\<open>hardware/camera_common.h\<close>,
  \<^verbatim>\<open>system/camera.h\<close>, \<^verbatim>\<open>AppOpsManager.h\<close>, \<^verbatim>\<open>ICameraService.h\<close>). The spec names
  the error kinds and the device versions 1.0, 2.0 and 2.1 but not their encodings;
  the encodings used here are the platform's (\<open>major * 256 + minor\<close> for versions,
  negated errno for errors). No result below depends on the particular values, only
  on their being distinct. \<^verbatim>\<open>MAX_CAMERAS\<close> (\<^verbatim>\<open>CameraService.h\<close>) is not fixed at
  all: it is a parameter of \<open>onFirstRef\<close>, of type \<open>nat\<close> since it is an array bound.
\<close>

type_synonym status_t = int

definition OK :: status_t where "OK = 0"
definition NO_ERROR :: status_t where "NO_ERROR = 0"
definition NO_INIT :: status_t where "NO_INIT = - 19"
definition BAD_VALUE :: status_t where "BAD_VALUE = - 22"
definition PERMISSION_DENIED :: status_t where "PERMISSION_DENIED = - 1"

definition CAMERA_DEVICE_API_VERSION_1_0 :: int where "CAMERA_DEVICE_API_VERSION_1_0 = 256"
definition CAMERA_DEVICE_API_VERSION_2_0 :: int where "CAMERA_DEVICE_API_VERSION_2_0 = 512"
definition CAMERA_DEVICE_API_VERSION_2_1 :: int where "CAMERA_DEVICE_API_VERSION_2_1 = 513"
definition CAMERA_MODULE_API_VERSION_2_0 :: int where "CAMERA_MODULE_API_VERSION_2_0 = 512"

definition USE_CALLING_UID :: int where "USE_CALLING_UID = - 1"
definition OP_CAMERA :: int where "OP_CAMERA = 26"
definition MODE_ALLOWED :: int where "MODE_ALLOWED = 0"
definition CAMERA_MSG_ERROR :: int where "CAMERA_MSG_ERROR = 1"
definition CAMERA_ERROR_RELEASED :: int where "CAMERA_ERROR_RELEASED = 2"

section \<open>Data model\<close>

text \<open>
  A remote endpoint (\<^verbatim>\<open>asBinder()\<close> of an \<^verbatim>\<open>ICameraClient\<close> or
  \<^verbatim>\<open>IProCameraCallbacks\<close>) is identified by a number; so is the address of a client
  object. \<^verbatim>\<open>sp<Client>\<close> is \<open>cid option\<close> (\<open>None\<close> is \<^verbatim>\<open>NULL\<close>), and so is
  \<^verbatim>\<open>wp<Client>\<close>, whose \<^verbatim>\<open>promote()\<close> consults the object store.
\<close>

type_synonym ibinder = nat
type_synonym cid = nat

datatype client_variant = CameraClient | Camera2Client | ProCamera2Client

datatype sound_kind = SOUND_SHUTTER | SOUND_RECORDING

text \<open>The HAL: \<^verbatim>\<open>struct camera_info\<close> and the entries of \<^verbatim>\<open>camera_module_t\<close> the service calls.\<close>

record camera_info =
  facing :: int
  orientation :: int
  device_version :: "32 word"

record camera_module =
  module_api_version :: int
  get_number_of_cameras :: int
  get_camera_info :: "int \<Rightarrow> status_t \<times> camera_info"

text \<open>\<^verbatim>\<open>struct CameraInfo\<close>, the out-parameter of \<^verbatim>\<open>getCameraInfo\<close>.\<close>

record CameraInfo =
  ci_facing :: int
  ci_orientation :: int

text \<open>
  The fields of \<^verbatim>\<open>BasicClient\<close> (and \<^verbatim>\<open>Client\<close>, whose \<^verbatim>\<open>mCameraClient->asBinder()\<close>
  is the endpoint stored in \<open>mRemoteCallback\<close>). \<open>variant\<close> is the dynamic type of the
  object; \<open>alive\<close> says that its strong reference count is positive, which is what
  \<^verbatim>\<open>wp::promote()\<close> tests.
\<close>

record client =
  variant :: client_variant
  alive :: bool
  mRemoteCallback :: ibinder
  mClientPackageName :: string
  mCameraId :: int
  mCameraFacing :: int
  mClientPid :: int
  mClientUid :: int
  mServicePid :: int
  mOpsActive :: bool
  mDestructionStarted :: bool

text \<open>
  What the service does that is visible outside the running call, in the order it
  does it: the calls it makes on its collaborators (object construction and release,
  the death links, the callback to the remote endpoint, the \<^verbatim>\<open>AppOpsManager\<close>, the
  media players), and its writes to state that other threads read: the atomic busy
  flags (\<^verbatim>\<open>android_atomic_write\<close>), \<^verbatim>\<open>mDestructionStarted\<close>, \<^verbatim>\<open>mClientPid\<close>, the
  sound reference count (under \<^verbatim>\<open>mSoundLock\<close>) and the entry into
  \<^verbatim>\<open>removeClientByRemote\<close> (under \<^verbatim>\<open>mServiceLock\<close>).
\<close>

datatype death_target = RemoteBinder ibinder | ClientObject cid

datatype event =
    New cid client_variant
  | Delete cid
  | LinkToDeath ibinder
  | UnlinkToDeath death_target
  | NotifyCallback ibinder int int int
  | StartWatchingMode cid
  | StartOp int string
  | FinishOp int string
  | StopWatchingMode cid
  | PlayerDisconnect sound_kind
  | BusyWrite int int
  | DestructionStarted cid
  | ClientPidWrite cid int
  | SoundRefWrite int
  | RemoveClientByRemote ibinder

text \<open>
  The members of \<^verbatim>\<open>CameraService\<close>, with the object store (\<open>heap\<close>, \<open>nextId\<close>: the
  next fresh address) and the \<open>history\<close> of the service: the events above, in program
  order.
\<close>

record service =
  mModule :: "camera_module option"
  mNumberOfCameras :: int
  mBusy :: "int \<Rightarrow> int"
  mClient :: "int \<Rightarrow> cid option"
  mProClientList :: "int \<Rightarrow> cid list"
  mSoundRef :: int
  mSoundPlayer :: "sound_kind \<Rightarrow> string option"
  heap :: "cid \<Rightarrow> client option"
  nextId :: cid
  history :: "event list"

text \<open>
  What one incoming call reads from its surroundings: the identity of the caller
  (\<^verbatim>\<open>IPCThreadState\<close>), the pid of the service, the system property
  \<^verbatim>\<open>sys.secpolicy.camera.disabled\<close> (with its default \<^verbatim>\<open>"0"\<close> applied), the status
  returned by the version-specific \<^verbatim>\<open>initialize\<close>, by \<^verbatim>\<open>MediaPlayer::setDataSource\<close>
  for a file, and the answers of the \<^verbatim>\<open>AppOpsManager\<close>.
\<close>

record env =
  getCallingPid :: int
  getCallingUid :: int
  getpid :: int
  camera_disabled_property :: string
  initialize_status :: status_t
  setDataSource_status :: "string \<Rightarrow> status_t"
  checkOp_result :: int
  startOp_result :: int

section \<open>The service\<close>

subsection \<open>Construction and start-up\<close>

text \<open>
  \<^verbatim>\<open>CameraService::CameraService()\<close> initialises \<^verbatim>\<open>mSoundRef\<close> and \<^verbatim>\<open>mModule\<close>;
  the weak handles and vectors are default-constructed (null, empty); \<^verbatim>\<open>mNumberOfCameras\<close>
  and \<^verbatim>\<open>mBusy\<close> are left as the memory \<open>u\<close> had them.
\<close>

definition CameraService_ctor :: "service \<Rightarrow> service" where
  "CameraService_ctor u =
     u\<lparr>mSoundRef := 0, mModule := None, mClient := (\<lambda>_. None),
       mProClientList := (\<lambda>_. []), mSoundPlayer := (\<lambda>_. None),
       heap := (\<lambda>_. None), nextId := 0, history := []\<rparr>"

definition setCameraBusy :: "int \<Rightarrow> service \<Rightarrow> service" where
  "setCameraBusy cameraId s =
     s\<lparr>mBusy := (mBusy s)(cameraId := 1), history := history s @ [BusyWrite cameraId 1]\<rparr>"

definition setCameraFree :: "int \<Rightarrow> service \<Rightarrow> service" where
  "setCameraFree cameraId s =
     s\<lparr>mBusy := (mBusy s)(cameraId := 0), history := history s @ [BusyWrite cameraId 0]\<rparr>"

text \<open>The loop \<^verbatim>\<open>for (int i = 0; i < mNumberOfCameras; i++) setCameraFree(i)\<close>.\<close>

function setCameraFree_from :: "int \<Rightarrow> int \<Rightarrow> service \<Rightarrow> service" where
  "setCameraFree_from i n s =
     (if i < n then setCameraFree_from (i + 1) n (setCameraFree i s) else s)"
  by pat_completeness auto
termination
  by (relation "measure (\<lambda>(i, n, s). nat (n - i))") auto

text \<open>
  \<^verbatim>\<open>onFirstRef\<close>: \<open>hal\<close> is what \<^verbatim>\<open>hw_get_module\<close> yields (\<open>None\<close> when it fails).
\<close>

definition onFirstRef :: "nat \<Rightarrow> camera_module option \<Rightarrow> service \<Rightarrow> service" where
  "onFirstRef MAX_CAMERAS hal s =
     (case hal of
        None \<Rightarrow> s\<lparr>mNumberOfCameras := 0\<rparr>
      | Some m \<Rightarrow>
          (let s1 = s\<lparr>mModule := Some m, mNumberOfCameras := get_number_of_cameras m\<rparr>;
               s2 = (if mNumberOfCameras s1 > int MAX_CAMERAS
                     then s1\<lparr>mNumberOfCameras := int MAX_CAMERAS\<rparr> else s1)
           in setCameraFree_from 0 (mNumberOfCameras s2) s2))"

definition getNumberOfCameras :: "service \<Rightarrow> int" where
  "getNumberOfCameras s = mNumberOfCameras s"

text \<open>
  \<^verbatim>\<open>getCameraInfo\<close> returns the status, the out-parameter and the service, which it
  only reads.
\<close>

definition getCameraInfo :: "int \<Rightarrow> CameraInfo \<Rightarrow> service \<Rightarrow> status_t \<times> CameraInfo \<times> service" where
  "getCameraInfo cameraId cameraInfo s =
     (case mModule s of
        None \<Rightarrow> (NO_INIT, cameraInfo, s)
      | Some m \<Rightarrow>
          if cameraId < 0 \<or> cameraId \<ge> mNumberOfCameras s then (BAD_VALUE, cameraInfo, s)
          else (let (rc, info) = get_camera_info m cameraId
                in (rc, \<lparr>ci_facing = facing info, ci_orientation = orientation info\<rparr>, s)))"

text \<open>
  \<^verbatim>\<open>getDeviceVersion\<close> returns the version and the value left in \<^verbatim>\<open>*facing\<close>.
  \<^verbatim>\<open>info.device_version\<close> is a \<^verbatim>\<open>uint32_t\<close> assigned to an \<^verbatim>\<open>int\<close>.
\<close>

definition getDeviceVersion :: "camera_module \<Rightarrow> int \<Rightarrow> int \<Rightarrow> int \<times> int" where
  "getDeviceVersion m cameraId facing0 =
     (let (rc, info) = get_camera_info m cameraId in
      if rc \<noteq> OK then (- 1, facing0)
      else ((if module_api_version m \<ge> CAMERA_MODULE_API_VERSION_2_0
             then sint (device_version info)
             else CAMERA_DEVICE_API_VERSION_1_0),
            facing info))"

subsection \<open>Weak handles and lookups\<close>

definition promote :: "(cid \<Rightarrow> client option) \<Rightarrow> cid \<Rightarrow> client option" where
  "promote h p = (case h p of None \<Rightarrow> None | Some c \<Rightarrow> if alive c then Some c else None)"

text \<open>
  \<^verbatim>\<open>findClientUnsafe\<close>, from index \<open>i\<close>: the result is the client, \<^verbatim>\<open>outIndex\<close> and
  the service (stale entries that were met are cleared).
\<close>

function findClientUnsafe_from :: "ibinder \<Rightarrow> int \<Rightarrow> service \<Rightarrow> cid option \<times> int \<times> service" where
  "findClientUnsafe_from cameraClient i s =
     (if i < mNumberOfCameras s then
        (case mClient s i of
           None \<Rightarrow> findClientUnsafe_from cameraClient (i + 1) s
         | Some p \<Rightarrow>
             (case promote (heap s) p of
                None \<Rightarrow> findClientUnsafe_from cameraClient (i + 1)
                          (s\<lparr>mClient := (mClient s)(i := None)\<rparr>)
              | Some c \<Rightarrow>
                  if cameraClient = mRemoteCallback c then (Some p, i, s)
                  else findClientUnsafe_from cameraClient (i + 1) s))
      else (None, - 1, s))"
  by pat_completeness auto
termination
  by (relation "measure (\<lambda>(b, i, s). nat (mNumberOfCameras s - i))") auto

definition findClientUnsafe :: "ibinder \<Rightarrow> service \<Rightarrow> cid option \<times> int \<times> service" where
  "findClientUnsafe cameraClient s = findClientUnsafe_from cameraClient 0 s"

text \<open>
  The inner loop of \<^verbatim>\<open>findProClientUnsafe\<close> over one device's list, from position
  \<open>j\<close>: the first live match (where the loop breaks) and the indices collected in
  \<^verbatim>\<open>removeIdx\<close>.
\<close>

fun findPro_inner :: "(cid \<Rightarrow> client option) \<Rightarrow> ibinder \<Rightarrow> cid list \<Rightarrow> nat \<Rightarrow> cid option \<times> nat list" where
  "findPro_inner h who [] j = (None, [])"
| "findPro_inner h who (cl # rest) j =
     (case promote h cl of
        Some c \<Rightarrow>
          if mRemoteCallback c = who then (Some cl, [])
          else findPro_inner h who rest (Suc j)
      | None \<Rightarrow> (let (r, idx) = findPro_inner h who rest (Suc j) in (r, j # idx)))"

definition removeAt :: "nat \<Rightarrow> 'a list \<Rightarrow> 'a list" where
  "removeAt i xs = take i xs @ drop (Suc i) xs"

function findProClientUnsafe_from ::
  "ibinder \<Rightarrow> int \<Rightarrow> cid option \<Rightarrow> service \<Rightarrow> cid option \<times> service" where
  "findProClientUnsafe_from who i clientPro s =
     (if i < mNumberOfCameras s then
        (let r = findPro_inner (heap s) who (mProClientList s i) 0;
             clientPro' = (case fst r of Some p \<Rightarrow> Some p | None \<Rightarrow> clientPro);
             s' = s\<lparr>mProClientList :=
                     (mProClientList s)(i := fold removeAt (rev (snd r)) (mProClientList s i))\<rparr>
         in findProClientUnsafe_from who (i + 1) clientPro' s')
      else (clientPro, s))"
  by pat_completeness auto
termination
  by (relation "measure (\<lambda>(b, i, c, s). nat (mNumberOfCameras s - i))") auto

definition findProClientUnsafe :: "ibinder \<Rightarrow> service \<Rightarrow> cid option \<times> service" where
  "findProClientUnsafe who s = findProClientUnsafe_from who 0 None s"

definition removeClientByRemote :: "ibinder \<Rightarrow> service \<Rightarrow> service" where
  "removeClientByRemote remoteBinder s =
     (case findClientUnsafe remoteBinder
             (s\<lparr>history := history s @ [RemoveClientByRemote remoteBinder]\<rparr>) of
        (Some p, outIndex, s1) \<Rightarrow>
          s1\<lparr>mClient := (mClient s1)(outIndex := None),
             history := history s1 @ [UnlinkToDeath (ClientObject p)]\<rparr>
      | (None, outIndex, s1) \<Rightarrow>
          (case findProClientUnsafe remoteBinder s1 of
             (Some q, s2) \<Rightarrow>
               (case heap s2 q of
                  Some c \<Rightarrow> s2\<lparr>history := history s2 @ [UnlinkToDeath (RemoteBinder (mRemoteCallback c))]\<rparr>
                | None \<Rightarrow> s2)
           | (None, s2) \<Rightarrow> s2))"

definition getClientByRemote :: "ibinder \<Rightarrow> service \<Rightarrow> cid option \<times> service" where
  "getClientByRemote cameraClient s =
     (case findClientUnsafe cameraClient s of (client, outIndex, s1) \<Rightarrow> (client, s1))"

subsection \<open>The shared sounds\<close>

definition newMediaPlayer :: "env \<Rightarrow> string \<Rightarrow> string option" where
  "newMediaPlayer e file = (if setDataSource_status e file = NO_ERROR then Some file else None)"

definition loadSound :: "env \<Rightarrow> service \<Rightarrow> service" where
  "loadSound e s =
     (let old = mSoundRef s;
          s1 = s\<lparr>mSoundRef := old + 1, history := history s @ [SoundRefWrite (old + 1)]\<rparr> in
      if old \<noteq> 0 then s1
      else s1\<lparr>mSoundPlayer := (mSoundPlayer s1)
                (SOUND_SHUTTER := newMediaPlayer e ''/system/media/audio/ui/camera_click.ogg'',
                 SOUND_RECORDING := newMediaPlayer e ''/system/media/audio/ui/VideoRecord.ogg'')\<rparr>)"

definition releasePlayer :: "sound_kind \<Rightarrow> service \<Rightarrow> service" where
  "releasePlayer k s =
     (case mSoundPlayer s k of
        None \<Rightarrow> s
      | Some mp \<Rightarrow> s\<lparr>mSoundPlayer := (mSoundPlayer s)(k := None),
                     history := history s @ [PlayerDisconnect k]\<rparr>)"

definition releaseSound :: "service \<Rightarrow> service" where
  "releaseSound s =
     (let s1 = s\<lparr>mSoundRef := mSoundRef s - 1,
                 history := history s @ [SoundRefWrite (mSoundRef s - 1)]\<rparr> in
      if mSoundRef s1 \<noteq> 0 then s1
      else fold releasePlayer [SOUND_SHUTTER, SOUND_RECORDING] s1)"

subsection \<open>Clients\<close>

definition BasicClient_ctor ::
  "client_variant \<Rightarrow> ibinder \<Rightarrow> string \<Rightarrow> int \<Rightarrow> int \<Rightarrow> int \<Rightarrow> int \<Rightarrow> int \<Rightarrow> client" where
  "BasicClient_ctor v remoteCallback clientPackageName cameraId cameraFacing clientPid clientUid servicePid =
     \<lparr>variant = v, alive = True, mRemoteCallback = remoteCallback,
      mClientPackageName = clientPackageName, mCameraId = cameraId,
      mCameraFacing = cameraFacing, mClientPid = clientPid, mClientUid = clientUid,
      mServicePid = servicePid, mOpsActive = False, mDestructionStarted = False\<rparr>"

text \<open>\<^verbatim>\<open>new\<close>: the object gets a fresh address and one strong reference.\<close>

definition allocate :: "client \<Rightarrow> service \<Rightarrow> cid \<times> service" where
  "allocate c s =
     (nextId s,
      s\<lparr>heap := (heap s)(nextId s := Some c), nextId := Suc (nextId s),
        history := history s @ [New (nextId s) (variant c)]\<rparr>)"

text \<open>
  \<^verbatim>\<open>new CameraClient(...)\<close> and \<^verbatim>\<open>new Camera2Client(...)\<close>: the base constructors
  \<^verbatim>\<open>BasicClient::BasicClient\<close> and \<^verbatim>\<open>Client::Client\<close> (the latter marks the device busy
  and takes a reference to the sounds). The constructors of the version-specific
  subclasses are not in this file.
\<close>

definition new_Client ::
  "env \<Rightarrow> client_variant \<Rightarrow> ibinder \<Rightarrow> string \<Rightarrow> int \<Rightarrow> int \<Rightarrow> int \<Rightarrow> int \<Rightarrow> int
     \<Rightarrow> service \<Rightarrow> cid \<times> service" where
  "new_Client e v cameraClient clientPackageName cameraId cameraFacing clientPid clientUid servicePid s =
     (let (p, s1) = allocate (BasicClient_ctor v cameraClient clientPackageName cameraId
                                cameraFacing clientPid clientUid servicePid) s
      in (p, loadSound e (setCameraBusy cameraId s1)))"

text \<open>\<^verbatim>\<open>new ProCamera2Client(...)\<close>: \<^verbatim>\<open>ProClient::ProClient\<close> only runs the base constructor.\<close>

definition new_ProClient ::
  "ibinder \<Rightarrow> string \<Rightarrow> int \<Rightarrow> int \<Rightarrow> int \<Rightarrow> int \<Rightarrow> int \<Rightarrow> service \<Rightarrow> cid \<times> service" where
  "new_ProClient remoteCallback clientPackageName cameraId cameraFacing clientPid clientUid servicePid s =
     allocate (BasicClient_ctor ProCamera2Client remoteCallback clientPackageName cameraId
                 cameraFacing clientPid clientUid servicePid) s"

definition update_client :: "cid \<Rightarrow> (client \<Rightarrow> client) \<Rightarrow> service \<Rightarrow> service" where
  "update_client p f s = s\<lparr>heap := (heap s)(p := map_option f (heap s p))\<rparr>"

definition BasicClient_disconnect :: "cid \<Rightarrow> service \<Rightarrow> service" where
  "BasicClient_disconnect p s =
     (case heap s p of
        None \<Rightarrow> s
      | Some c \<Rightarrow> removeClientByRemote (mRemoteCallback c) s)"

text \<open>\<^verbatim>\<open>Client::disconnect\<close>: \<^verbatim>\<open>BasicClient::disconnect()\<close>, then \<^verbatim>\<open>setCameraFree(mCameraId)\<close>.\<close>

definition Client_disconnect :: "cid \<Rightarrow> service \<Rightarrow> service" where
  "Client_disconnect p s =
     (case heap s p of
        None \<Rightarrow> s
      | Some c \<Rightarrow> setCameraFree (mCameraId c) (BasicClient_disconnect p s))"

definition ProClient_disconnect :: "cid \<Rightarrow> service \<Rightarrow> service" where
  "ProClient_disconnect p s = BasicClient_disconnect p s"

text \<open>
  Modelled from the spec: the virtual call \<^verbatim>\<open>disconnect()\<close>, whose overrides in
  \<^verbatim>\<open>CameraClient\<close>, \<^verbatim>\<open>Camera2Client\<close> and \<^verbatim>\<open>ProCamera2Client\<close> are not in
  \<^verbatim>\<open>CameraService.cpp\<close>. By the spec (4.2) \<open>disconnect\<close> unregisters the client from
  the arbiter and releases device-specific resources, the latter a black box; its
  effect on the service is that of the implementation of the object's class in this
  file (\<^verbatim>\<open>Client::disconnect\<close> or \<^verbatim>\<open>ProClient::disconnect\<close>).
\<close>

definition disconnect :: "cid \<Rightarrow> service \<Rightarrow> service" where
  "disconnect p s =
     (case heap s p of
        None \<Rightarrow> s
      | Some c \<Rightarrow>
          (case variant c of
             ProCamera2Client \<Rightarrow> ProClient_disconnect p s
           | _ \<Rightarrow> Client_disconnect p s))"

definition startCameraOps :: "env \<Rightarrow> cid \<Rightarrow> service \<Rightarrow> status_t \<times> service" where
  "startCameraOps e p s =
     (case heap s p of
        None \<Rightarrow> (PERMISSION_DENIED, s)
      | Some c \<Rightarrow>
          (let s1 = s\<lparr>history := history s @ [StartWatchingMode p,
                                          StartOp (mClientUid c) (mClientPackageName c)]\<rparr>
           in if startOp_result e \<noteq> MODE_ALLOWED then (PERMISSION_DENIED, s1)
              else (OK, update_client p (\<lambda>c. c\<lparr>mOpsActive := True\<rparr>) s1)))"

definition finishCameraOps :: "cid \<Rightarrow> service \<Rightarrow> service" where
  "finishCameraOps p s =
     (case heap s p of
        None \<Rightarrow> s
      | Some c \<Rightarrow>
          (let s1 = (if mOpsActive c
                     then update_client p (\<lambda>c. c\<lparr>mOpsActive := False\<rparr>)
                            (s\<lparr>history := history s @ [FinishOp (mClientUid c) (mClientPackageName c)]\<rparr>)
                     else s)
           in s1\<lparr>history := history s1 @ [StopWatchingMode p]\<rparr>))"

text \<open>\<^verbatim>\<open>Client::notifyError\<close>; \<^verbatim>\<open>ProClient::notifyError\<close> only logs.\<close>

definition notifyError :: "cid \<Rightarrow> service \<Rightarrow> service" where
  "notifyError p s =
     (case heap s p of
        None \<Rightarrow> s
      | Some c \<Rightarrow>
          (case variant c of
             ProCamera2Client \<Rightarrow> s
           | _ \<Rightarrow> s\<lparr>history := history s @
                      [NotifyCallback (mRemoteCallback c) CAMERA_MSG_ERROR CAMERA_ERROR_RELEASED 0]\<rparr>))"

text \<open>The assignment \<^verbatim>\<open>mClientPid = getCallingPid()\<close> of \<^verbatim>\<open>opChanged\<close>.\<close>

definition stampClientPid :: "cid \<Rightarrow> int \<Rightarrow> service \<Rightarrow> service" where
  "stampClientPid p pid s =
     (update_client p (\<lambda>c. c\<lparr>mClientPid := pid\<rparr>) s)
       \<lparr>history := history s @ [ClientPidWrite p pid]\<rparr>"

definition opChanged :: "env \<Rightarrow> cid \<Rightarrow> int \<Rightarrow> string \<Rightarrow> service \<Rightarrow> service" where
  "opChanged e p op packageName s =
     (if op \<noteq> OP_CAMERA then s
      else if checkOp_result e \<noteq> MODE_ALLOWED then
        disconnect p
          (notifyError p
             (stampClientPid p (getCallingPid e) s))
      else s)"

text \<open>\<^verbatim>\<open>OpsCallback::opChanged\<close>: forwards if its weak handle still promotes.\<close>

definition OpsCallback_opChanged :: "env \<Rightarrow> cid \<Rightarrow> int \<Rightarrow> string \<Rightarrow> service \<Rightarrow> service" where
  "OpsCallback_opChanged e p op packageName s =
     (case promote (heap s) p of
        None \<Rightarrow> s
      | Some c \<Rightarrow> opChanged e p op packageName s)"

subsection \<open>Destruction\<close>

text \<open>The bodies of \<^verbatim>\<open>~Client\<close>, \<^verbatim>\<open>~ProClient\<close> and \<^verbatim>\<open>~BasicClient\<close>.\<close>

definition markDestructionStarted :: "cid \<Rightarrow> service \<Rightarrow> service" where
  "markDestructionStarted p s =
     (update_client p (\<lambda>c. c\<lparr>mDestructionStarted := True\<rparr>) s)
       \<lparr>history := history s @ [DestructionStarted p]\<rparr>"

definition Client_dtor :: "cid \<Rightarrow> service \<Rightarrow> service" where
  "Client_dtor p s =
     Client_disconnect p (finishCameraOps p (releaseSound (markDestructionStarted p s)))"

definition ProClient_dtor :: "cid \<Rightarrow> service \<Rightarrow> service" where
  "ProClient_dtor p s = ProClient_disconnect p (markDestructionStarted p s)"

definition BasicClient_dtor :: "cid \<Rightarrow> service \<Rightarrow> service" where
  "BasicClient_dtor p s = markDestructionStarted p s"

definition free :: "cid \<Rightarrow> service \<Rightarrow> service" where
  "free p s = s\<lparr>heap := (heap s)(p := None), history := history s @ [Delete p]\<rparr>"

text \<open>
  The last strong reference to an object goes away: the object stops being
  promotable, its destructors run from the class in this file down to the base, and
  its memory is released. (The destructors of the version-specific subclasses are not
  in this file.)
\<close>

definition decStrong :: "cid \<Rightarrow> service \<Rightarrow> service" where
  "decStrong p s =
     (case heap s p of
        None \<Rightarrow> s
      | Some c \<Rightarrow>
          if \<not> alive c then s
          else (let s0 = update_client p (\<lambda>c. c\<lparr>alive := False\<rparr>) s in
                case variant c of
                  ProCamera2Client \<Rightarrow> free p (BasicClient_dtor p (ProClient_dtor p s0))
                | _ \<Rightarrow> free p (BasicClient_dtor p (Client_dtor p s0))))"

subsection \<open>connect\<close>

text \<open>
  Lines 236--268 of \<^verbatim>\<open>connect\<close>: version dispatch, \<^verbatim>\<open>initialize\<close>, death link,
  publication. When \<^verbatim>\<open>initialize\<close> fails, the only strong reference (the local
  \<^verbatim>\<open>client\<close>) goes out of scope.
\<close>

definition connect_finish :: "env \<Rightarrow> ibinder \<Rightarrow> int \<Rightarrow> cid \<times> service \<Rightarrow> cid option \<times> service" where
  "connect_finish e cameraClient cameraId ps =
     (case ps of (p, s1) \<Rightarrow>
        if initialize_status e \<noteq> OK then (None, decStrong p s1)
        else (Some p, s1\<lparr>history := history s1 @ [LinkToDeath cameraClient],
                         mClient := (mClient s1)(cameraId := Some p)\<rparr>))"

definition connect_dispatch ::
  "env \<Rightarrow> camera_module \<Rightarrow> ibinder \<Rightarrow> int \<Rightarrow> string \<Rightarrow> int \<Rightarrow> service \<Rightarrow> cid option \<times> service" where
  "connect_dispatch e m cameraClient cameraId clientPackageName clientUid s =
     (let (deviceVersion, facing1) = getDeviceVersion m cameraId (- 1) in
      if deviceVersion = CAMERA_DEVICE_API_VERSION_1_0 then
        connect_finish e cameraClient cameraId
          (new_Client e CameraClient cameraClient clientPackageName cameraId facing1
             (getCallingPid e) clientUid (getpid e) s)
      else if deviceVersion = CAMERA_DEVICE_API_VERSION_2_0
              \<or> deviceVersion = CAMERA_DEVICE_API_VERSION_2_1 then
        connect_finish e cameraClient cameraId
          (new_Client e Camera2Client cameraClient clientPackageName cameraId facing1
             (getCallingPid e) clientUid (getpid e) s)
      else if deviceVersion = - 1 then (None, s)
      else (None, s))"

text \<open>Lines 201--234: the part of \<^verbatim>\<open>connect\<close> under \<^verbatim>\<open>mServiceLock\<close> before the dispatch.\<close>

definition connect_locked ::
  "env \<Rightarrow> camera_module \<Rightarrow> ibinder \<Rightarrow> int \<Rightarrow> string \<Rightarrow> int \<Rightarrow> service \<Rightarrow> cid option \<times> service" where
  "connect_locked e m cameraClient cameraId clientPackageName clientUid s =
     (let busy_check = (\<lambda>s'. if mBusy s' cameraId \<noteq> 0 then (None, s')
                             else connect_dispatch e m cameraClient cameraId clientPackageName clientUid s')
      in case mClient s cameraId of
           None \<Rightarrow> busy_check s
         | Some p \<Rightarrow>
             (case promote (heap s) p of
                Some c \<Rightarrow>
                  if cameraClient = mRemoteCallback c then (Some p, s)
                  else (None, s)
              | None \<Rightarrow> busy_check (s\<lparr>mClient := (mClient s)(cameraId := None)\<rparr>)))"

definition connect ::
  "env \<Rightarrow> ibinder \<Rightarrow> int \<Rightarrow> string \<Rightarrow> int \<Rightarrow> service \<Rightarrow> cid option \<times> service" where
  "connect e cameraClient cameraId clientPackageName clientUid s =
     (if clientUid \<noteq> USE_CALLING_UID \<and> getCallingPid e \<noteq> getpid e then (None, s)
      else
        (let clientUid1 = (if clientUid = USE_CALLING_UID then getCallingUid e else clientUid) in
         case mModule s of
           None \<Rightarrow> (None, s)
         | Some m \<Rightarrow>
             if cameraId < 0 \<or> cameraId \<ge> mNumberOfCameras s then (None, s)
             else if camera_disabled_property e = ''1'' then (None, s)
             else connect_locked e m cameraClient cameraId clientPackageName clientUid1 s))"

text \<open>\<^verbatim>\<open>connect(const sp<IProCameraCallbacks>&, int)\<close>, the observer channel.\<close>

definition connectPro :: "env \<Rightarrow> ibinder \<Rightarrow> int \<Rightarrow> service \<Rightarrow> cid option \<times> service" where
  "connectPro e cameraCb cameraId s =
     (case mModule s of
        None \<Rightarrow> (None, s)
      | Some m \<Rightarrow>
          if cameraId < 0 \<or> cameraId \<ge> mNumberOfCameras s then (None, s)
          else if camera_disabled_property e = ''1'' then (None, s)
          else
            (let (deviceVersion, facing1) = getDeviceVersion m cameraId (- 1) in
             if deviceVersion = CAMERA_DEVICE_API_VERSION_1_0 then (None, s)
             else if deviceVersion = CAMERA_DEVICE_API_VERSION_2_0
                     \<or> deviceVersion = CAMERA_DEVICE_API_VERSION_2_1 then
               (let (p, s1) = new_ProClient cameraCb [] cameraId facing1 (getCallingPid e)
                                USE_CALLING_UID (getpid e) s
                in if initialize_status e \<noteq> OK then (None, decStrong p s1)
                   else (Some p,
                         s1\<lparr>mProClientList :=
                              (mProClientList s1)(cameraId := mProClientList s1 cameraId @ [p]),
                            history := history s1 @ [LinkToDeath cameraCb]\<rparr>))
             else if deviceVersion = - 1 then (None, s)
             else (None, s)))"

subsection \<open>Death of a remote endpoint\<close>

definition binderDied :: "ibinder \<Rightarrow> service \<Rightarrow> service" where
  "binderDied who s =
     (case getClientByRemote who s of
        (None, s1) \<Rightarrow> s1
      | (Some p, s1) \<Rightarrow> disconnect p s1)"

subsection \<open>Runs of the service\<close>

text \<open>
  What can happen to a running service: the calls of its interface, the callbacks it
  receives, a call of \<^verbatim>\<open>disconnect\<close> on a handle, and the release of the last strong
  reference to a client.
\<close>

datatype request =
    Connect env ibinder int string int
  | ConnectPro env ibinder int
  | GetNumberOfCameras
  | GetCameraInfo int CameraInfo
  | BinderDied ibinder
  | PolicyChanged env cid int string
  | Disconnect cid
  | DecStrong cid

fun handle :: "request \<Rightarrow> service \<Rightarrow> service" where
  "handle (Connect e cameraClient cameraId clientPackageName clientUid) s =
     snd (connect e cameraClient cameraId clientPackageName clientUid s)"
| "handle (ConnectPro e cameraCb cameraId) s = snd (connectPro e cameraCb cameraId s)"
| "handle GetNumberOfCameras s = s"
| "handle (GetCameraInfo cameraId cameraInfo) s = snd (snd (getCameraInfo cameraId cameraInfo s))"
| "handle (BinderDied who) s = binderDied who s"
| "handle (PolicyChanged e p op packageName) s = OpsCallback_opChanged e p op packageName s"
| "handle (Disconnect p) s = (case promote (heap s) p of None \<Rightarrow> s | Some c \<Rightarrow> disconnect p s)"
| "handle (DecStrong p) s = decStrong p s"

fun run :: "request list \<Rightarrow> service \<Rightarrow> service" where
  "run [] s = s"
| "run (r # rs) s = run rs (handle r s)"

text \<open>The service after construction and \<^verbatim>\<open>onFirstRef\<close>.\<close>

definition started :: "nat \<Rightarrow> camera_module option \<Rightarrow> service \<Rightarrow> service" where
  "started MAX_CAMERAS hal u = onFirstRef MAX_CAMERAS hal (CameraService_ctor u)"

section \<open>Observations on states\<close>

text \<open>The calls on collaborators among the events, and the trace of those calls.\<close>

fun is_call :: "event \<Rightarrow> bool" where
  "is_call (BusyWrite i v) = False"
| "is_call (DestructionStarted p) = False"
| "is_call (ClientPidWrite p pid) = False"
| "is_call (SoundRefWrite n) = False"
| "is_call (RemoveClientByRemote b) = False"
| "is_call ev = True"

definition trace :: "service \<Rightarrow> event list" where
  "trace s = filter is_call (history s)"





text \<open>The clients a run has constructed, read off its events.\<close>

fun constructed :: "event list \<Rightarrow> (cid \<times> client_variant) list" where
  "constructed [] = []"
| "constructed (New p v # evs) = (p, v) # constructed evs"
| "constructed (ev # evs) = constructed evs"

fun is_notification :: "event \<Rightarrow> bool" where
  "is_notification (NotifyCallback b m x y) = True"
| "is_notification ev = False"

text \<open>
  The number of live exclusive clients: objects in the store below \<open>nextId\<close> that are
  not observers and whose strong count is positive.
\<close>

definition is_live_client :: "client option \<Rightarrow> bool" where
  "is_live_client oc =
     (case oc of None \<Rightarrow> False | Some c \<Rightarrow> variant c \<noteq> ProCamera2Client \<and> alive c)"

fun count_clients :: "(cid \<Rightarrow> client option) \<Rightarrow> nat \<Rightarrow> nat" where
  "count_clients h 0 = 0"
| "count_clients h (Suc n) = (if is_live_client (h n) then 1 else 0) + count_clients h n"

definition live_clients :: "service \<Rightarrow> nat" where
  "live_clients s = count_clients (heap s) (nextId s)"

text \<open>
  A stretch of events that constructs no client and notifies no one; and the relation
  between a state and a later one that differs from it only in the registry, the busy
  flags, the sounds, fields of objects other than their class and liveness, and such a
  stretch of events.
\<close>

definition quiet :: "event list \<Rightarrow> bool" where
  "quiet t \<longleftrightarrow> constructed t = [] \<and> filter is_notification t = []"

definition kept :: "service \<Rightarrow> service \<Rightarrow> bool" where
  "kept s s' \<longleftrightarrow>
     mNumberOfCameras s' = mNumberOfCameras s \<and> mModule s' = mModule s \<and>
     nextId s' = nextId s \<and>
     (\<forall>q. (heap s' q = None) = (heap s q = None)
          \<and> is_live_client (heap s' q) = is_live_client (heap s q)) \<and>
     (\<exists>t. history s' = history s @ t \<and> quiet t)"

text \<open>
  The registry after a lookup that met no live match from slot \<open>i\<close> on: the stale
  handles in range are cleared.
\<close>

definition sweep :: "service \<Rightarrow> int \<Rightarrow> int \<Rightarrow> cid option" where
  "sweep s i j =
     (if i \<le> j \<and> j < mNumberOfCameras s
         \<and> (case mClient s j of None \<Rightarrow> False | Some q \<Rightarrow> promote (heap s) q = None)
      then None else mClient s j)"

text \<open>
  The invariant of the object store: the sound reference count equals the number of
  live exclusive clients, and no object lies at or beyond \<open>nextId\<close>.
\<close>

definition store_ok :: "service \<Rightarrow> bool" where
  "store_ok s \<longleftrightarrow> mSoundRef s = int (live_clients s) \<and> (\<forall>q. nextId s \<le> q \<longrightarrow> heap s q = None)"

section \<open>Concrete inputs\<close>

text \<open>
  Memory before the constructor runs, a HAL with two devices (device 0 of version
  2.1, device 1 of version 1.0), a HAL that reports a negative count, and a caller.
\<close>

definition stale_memory :: service where
  "stale_memory =
     \<lparr>mModule = None, mNumberOfCameras = 12345, mBusy = (\<lambda>_. 1), mClient = (\<lambda>_. None),
      mProClientList = (\<lambda>_. []), mSoundRef = 7, mSoundPlayer = (\<lambda>_. None),
      heap = (\<lambda>_. None), nextId = 0, history = []\<rparr>"

definition two_camera_hal :: camera_module where
  "two_camera_hal =
     \<lparr>module_api_version = 512, get_number_of_cameras = 2,
      get_camera_info = (\<lambda>i. if i = 0
         then (OK, \<lparr>facing = 0, orientation = 90, device_version = 513\<rparr>)
         else (OK, \<lparr>facing = 1, orientation = 270, device_version = 256\<rparr>))\<rparr>"

definition negative_count_hal :: camera_module where
  "negative_count_hal = two_camera_hal\<lparr>get_number_of_cameras := - 1\<rparr>"

definition caller :: env where
  "caller =
     \<lparr>getCallingPid = 1000, getCallingUid = 10001, getpid = 500,
      camera_disabled_property = ''0'', initialize_status = OK,
      setDataSource_status = (\<lambda>_. NO_ERROR), checkOp_result = MODE_ALLOWED,
      startOp_result = MODE_ALLOWED\<rparr>"

text \<open>The service with two devices, and after endpoint 7 has connected to device 0.\<close>

definition service0 :: service where
  "service0 = started 2 (Some two_camera_hal) stale_memory"

definition service1 :: service where
  "service1 = snd (connect caller 7 0 ''pkg.a'' USE_CALLING_UID service0)"

text \<open>The client object that connection creates.\<close>

definition client0 :: client where
  "client0 = BasicClient_ctor Camera2Client 7 ''pkg.a'' 0 0 1000 10001 500"

text \<open>
  The same service at the moment the last strong reference to that client has gone
  and its destructor has not run yet.
\<close>

definition service1_dying :: service where
  "service1_dying = update_client 0 (\<lambda>c. c\<lparr>alive := False\<rparr>) service1"

text \<open>
  Endpoint 7 connects to device 1 as well: the service after that request, and the
  client object it creates.
\<close>

definition client1 :: client where
  "client1 = BasicClient_ctor CameraClient 7 ''pkg.a'' 1 1 1000 10001 500"

definition service2 :: service where
  "service2 = snd (connect caller 7 1 ''pkg.a'' USE_CALLING_UID service1)"

text \<open>
  A HAL whose device 0 reports the version word \<open>0xFFFFFFFF\<close> (\<open>-1\<close> as an \<open>int\<close>) and
  whose device 1 reports version 3.0, and the service started on it.
\<close>

definition unknown_version_hal :: camera_module where
  "unknown_version_hal =
     \<lparr>module_api_version = 512, get_number_of_cameras = 2,
      get_camera_info = (\<lambda>i. if i = 0
         then (OK, \<lparr>facing = 0, orientation = 90, device_version = 4294967295\<rparr>)
         else (OK, \<lparr>facing = 1, orientation = 270, device_version = 768\<rparr>))\<rparr>"

definition service_unknown :: service where
  "service_unknown = started 2 (Some unknown_version_hal) stale_memory"

text \<open>An observer with endpoint 9 on device 0, and the service it is connected to.\<close>

definition observer0 :: client where
  "observer0 = BasicClient_ctor ProCamera2Client 9 [] 0 0 1000 USE_CALLING_UID 500"

definition service_observed :: service where
  "service_observed = snd (connectPro caller 9 0 service0)"

section \<open>Frames of the lookups\<close>

declare setCameraFree_from.simps [simp del]
declare findClientUnsafe_from.simps [simp del]
declare findProClientUnsafe_from.simps [simp del]


lemma BasicClient_ctor_sel [simp]:
  "variant (BasicClient_ctor v b n i f pid uid sp) = v"
  "alive (BasicClient_ctor v b n i f pid uid sp) = True"
  "mRemoteCallback (BasicClient_ctor v b n i f pid uid sp) = b"
  "mCameraId (BasicClient_ctor v b n i f pid uid sp) = i"
  "mClientPid (BasicClient_ctor v b n i f pid uid sp) = pid"
  "mOpsActive (BasicClient_ctor v b n i f pid uid sp) = False"
  "mDestructionStarted (BasicClient_ctor v b n i f pid uid sp) = False"
  by (simp_all add: BasicClient_ctor_def)

lemma setCameraFree_from_form:
  "\<exists>f t. setCameraFree_from i n s = s\<lparr>mBusy := f, history := history s @ t\<rparr>"
proof (induction i n s rule: setCameraFree_from.induct)
  case (1 i n s)
  show ?case
  proof (cases "i < n")
    case True
    from 1 [OF True] obtain f t where
      "setCameraFree_from (i + 1) n (setCameraFree i s)
         = (setCameraFree i s)\<lparr>mBusy := f, history := history (setCameraFree i s) @ t\<rparr>"
      by blast
    then have "setCameraFree_from i n s = s\<lparr>mBusy := f, history := history s @ ([BusyWrite i 0] @ t)\<rparr>"
      using True by (subst setCameraFree_from.simps) (simp add: setCameraFree_def)
    then show ?thesis by blast
  next
    case False
    then have "setCameraFree_from i n s = s\<lparr>mBusy := mBusy s, history := history s @ []\<rparr>"
      by (subst setCameraFree_from.simps) simp
    then show ?thesis by blast
  qed
qed

lemma findClientUnsafe_from_form:
  "\<exists>f. snd (snd (findClientUnsafe_from b i s)) = s\<lparr>mClient := f\<rparr>"
proof (induction b i s rule: findClientUnsafe_from.induct)
  case (1 b i s)
  have base: "\<exists>f. s = s\<lparr>mClient := f\<rparr>"
    by (rule exI [of _ "mClient s"]) simp
  show ?case
  proof (cases "i < mNumberOfCameras s")
    case False
    then show ?thesis using base
      by (subst findClientUnsafe_from.simps) simp
  next
    case True
    show ?thesis
    proof (cases "mClient s i")
      case None
      with True 1(1) show ?thesis
        by (subst findClientUnsafe_from.simps) simp
    next
      case (Some p)
      show ?thesis
      proof (cases "promote (heap s) p")
        case None
        from 1(2) [OF True Some None] obtain f where
          "snd (snd (findClientUnsafe_from b (i + 1) (s\<lparr>mClient := (mClient s)(i := None)\<rparr>)))
             = s\<lparr>mClient := (mClient s)(i := None)\<rparr>\<lparr>mClient := f\<rparr>" by blast
        then have "snd (snd (findClientUnsafe_from b i s)) = s\<lparr>mClient := f\<rparr>"
          using True Some None by (subst findClientUnsafe_from.simps) simp
        then show ?thesis by blast
      next
        case (Some c)
        show ?thesis
        proof (cases "b = mRemoteCallback c")
          case True
          with \<open>i < mNumberOfCameras s\<close> \<open>mClient s i = Some p\<close> Some base show ?thesis
            by (subst findClientUnsafe_from.simps) simp
        next
          case False
          with \<open>i < mNumberOfCameras s\<close> \<open>mClient s i = Some p\<close> Some 1(3) show ?thesis
            by (subst findClientUnsafe_from.simps) simp
        qed
      qed
    qed
  qed
qed

lemma findProClientUnsafe_from_form:
  "\<exists>g. snd (findProClientUnsafe_from b i cp s) = s\<lparr>mProClientList := g\<rparr>"
proof (induction b i cp s rule: findProClientUnsafe_from.induct)
  case (1 who i clientPro s)
  show ?case
  proof (cases "i < mNumberOfCameras s")
    case False
    from False have "findProClientUnsafe_from who i clientPro s = (clientPro, s)"
      by (subst findProClientUnsafe_from.simps) simp
    then have "snd (findProClientUnsafe_from who i clientPro s) = s\<lparr>mProClientList := mProClientList s\<rparr>"
      by simp
    then show ?thesis by blast
  next
    case True
    from 1 [OF True refl refl refl] obtain g where
      g: "snd (findProClientUnsafe_from who (i + 1)
            (case fst (findPro_inner (heap s) who (mProClientList s i) 0) of None \<Rightarrow> clientPro | Some p \<Rightarrow> Some p)
            (s\<lparr>mProClientList := (mProClientList s)
                 (i := fold removeAt (rev (snd (findPro_inner (heap s) who (mProClientList s i) 0))) (mProClientList s i))\<rparr>))
          = s\<lparr>mProClientList := g\<rparr>"
      by auto
    have "snd (findProClientUnsafe_from who i clientPro s) = s\<lparr>mProClientList := g\<rparr>"
      using True g by (subst findProClientUnsafe_from.simps) (simp add: Let_def)
    then show ?thesis by blast
  qed
qed

lemma removeClientByRemote_form:
  "\<exists>f g t. removeClientByRemote b s
       = s\<lparr>mClient := f, mProClientList := g, history := history s @ RemoveClientByRemote b # t\<rparr>
     \<and> (t = [] \<or> (\<exists>x. t = [UnlinkToDeath x]))"
proof -
  let ?s0 = "s\<lparr>history := history s @ [RemoveClientByRemote b]\<rparr>"
  obtain r i s1 where fc: "findClientUnsafe b ?s0 = (r, i, s1)"
    by (cases "findClientUnsafe b ?s0") auto
  from findClientUnsafe_from_form [of b 0 ?s0] fc obtain f where s1: "s1 = ?s0\<lparr>mClient := f\<rparr>"
    by (auto simp: findClientUnsafe_def)
  show ?thesis
  proof (cases r)
    case (Some p)
    with fc s1 have "removeClientByRemote b s =
        s\<lparr>mClient := f(i := None), mProClientList := mProClientList s,
          history := history s @ RemoveClientByRemote b # [UnlinkToDeath (ClientObject p)]\<rparr>"
      by (simp add: removeClientByRemote_def)
    then show ?thesis by blast
  next
    case None
    obtain q s2 where fp: "findProClientUnsafe b s1 = (q, s2)"
      by (cases "findProClientUnsafe b s1") auto
    from findProClientUnsafe_from_form [of b 0 None s1] fp obtain g where
      s2: "s2 = s1\<lparr>mProClientList := g\<rparr>"
      by (auto simp: findProClientUnsafe_def)
    show ?thesis
    proof (cases "\<exists>q' c. q = Some q' \<and> heap s2 q' = Some c")
      case True
      then obtain q' c where q: "q = Some q'" "heap s2 q' = Some c" by blast
      with fc None fp s1 s2 have "removeClientByRemote b s =
          s\<lparr>mClient := f, mProClientList := g,
            history := history s @ RemoveClientByRemote b
                         # [UnlinkToDeath (RemoteBinder (mRemoteCallback c))]\<rparr>"
        by (simp add: removeClientByRemote_def)
      then show ?thesis by blast
    next
      case False
      with fc None fp s1 s2 have "removeClientByRemote b s =
          s\<lparr>mClient := f, mProClientList := g,
            history := history s @ RemoveClientByRemote b # []\<rparr>"
        by (cases q) (auto simp: removeClientByRemote_def split: option.splits)
      then show ?thesis by blast
    qed
  qed
qed

lemma constructed_append [simp]: "constructed (xs @ ys) = constructed xs @ constructed ys"
  by (induction xs rule: constructed.induct) simp_all

lemma constructed_calls [simp]: "constructed (filter is_call t) = constructed t"
  by (induction t rule: constructed.induct) simp_all

lemma constructed_trace [simp]: "constructed (trace s) = constructed (history s)"
  by (simp add: trace_def)

lemma trace_fields [simp]:
  "trace (s\<lparr>mClient := f\<rparr>) = trace s"
  "trace (s\<lparr>mProClientList := g\<rparr>) = trace s"
  "trace (s\<lparr>mBusy := b\<rparr>) = trace s"
  "trace (s\<lparr>heap := h\<rparr>) = trace s"
  by (simp_all add: trace_def)

lemma quiet_Nil [simp]: "quiet []"
  by (simp add: quiet_def)

lemma quiet_append [simp]: "quiet (xs @ ys) \<longleftrightarrow> quiet xs \<and> quiet ys"
  by (auto simp: quiet_def)

lemma quiet_single [simp]:
  "quiet [UnlinkToDeath x]" "quiet [PlayerDisconnect k]" "quiet [FinishOp u n]"
  "quiet [StopWatchingMode p]" "quiet [Delete p]" "quiet [LinkToDeath b]"
  "quiet [BusyWrite i v]" "quiet [DestructionStarted p]" "quiet [ClientPidWrite p pid]"
  "quiet [SoundRefWrite k']" "quiet [RemoveClientByRemote b]"
  by (simp_all add: quiet_def)

lemma quiet_Cons:
  "quiet (ev # t) \<longleftrightarrow> quiet [ev] \<and> quiet t"
  using quiet_append [of "[ev]" t] by simp

lemma kept_refl [simp]: "kept s s"
  by (simp add: kept_def)

lemma kept_trans: "kept s s1 \<Longrightarrow> kept s1 s2 \<Longrightarrow> kept s s2"
  unfolding kept_def
  by (metis (no_types, lifting) append.assoc quiet_append)

lemma kept_fields:
  assumes "kept s s'"
  shows "mNumberOfCameras s' = mNumberOfCameras s" "mModule s' = mModule s"
    "nextId s' = nextId s" "(heap s' q = None) = (heap s q = None)"
    "is_live_client (heap s' q) = is_live_client (heap s q)"
    "constructed (history s') = constructed (history s)"
  using assms by (auto simp: kept_def quiet_def)

lemma kept_registry [simp]:
  "kept s (s\<lparr>mClient := f\<rparr>)" "kept s (s\<lparr>mProClientList := g\<rparr>)" "kept s (s\<lparr>mBusy := b\<rparr>)"
  "kept s (s\<lparr>mSoundRef := r\<rparr>)" "kept s (s\<lparr>mSoundPlayer := pl\<rparr>)"
  by (simp_all add: kept_def)

lemma kept_trace: "quiet t \<Longrightarrow> kept s (s\<lparr>history := history s @ t\<rparr>)"
  by (auto simp: kept_def)

lemma kept_setCameraFree [simp]: "kept s (setCameraFree i s)"
  by (simp add: setCameraFree_def kept_def)

lemma kept_removeClientByRemote [simp]: "kept s (removeClientByRemote b s)"
proof -
  from removeClientByRemote_form [of b s] obtain f g t where
    "removeClientByRemote b s
       = s\<lparr>mClient := f, mProClientList := g, history := history s @ RemoveClientByRemote b # t\<rparr>"
    "t = [] \<or> (\<exists>x. t = [UnlinkToDeath x])"
    by blast
  moreover from this(2) have "quiet (RemoveClientByRemote b # t)"
    by (auto simp: quiet_def)
  ultimately show ?thesis by (auto simp: kept_def)
qed

lemma kept_BasicClient_disconnect [simp]: "kept s (BasicClient_disconnect p s)"
  by (simp add: BasicClient_disconnect_def split: option.splits)

lemma kept_Client_disconnect [simp]: "kept s (Client_disconnect p s)"
  by (auto simp: Client_disconnect_def split: option.splits
      intro: kept_trans [OF kept_BasicClient_disconnect kept_setCameraFree])

lemma kept_disconnect [simp]: "kept s (disconnect p s)"
  by (simp add: disconnect_def ProClient_disconnect_def split: option.splits client_variant.splits)

lemma is_live_client_update:
  "variant (f c) = variant c \<Longrightarrow> alive (f c) = alive c \<Longrightarrow>
     is_live_client (Some (f c)) = is_live_client (Some c)"
  by (simp add: is_live_client_def)

lemma kept_update_client:
  assumes "\<And>c. variant (f c) = variant c" "\<And>c. alive (f c) = alive c"
  shows "kept s (update_client p f s)"
  using assms by (auto simp: kept_def update_client_def is_live_client_def split: option.splits)

lemma kept_markDestructionStarted [simp]: "kept s (markDestructionStarted p s)"
proof -
  have "kept s (update_client p (\<lambda>c. c\<lparr>mDestructionStarted := True\<rparr>) s)"
    by (rule kept_update_client) simp_all
  then show ?thesis
    by (auto simp: markDestructionStarted_def kept_def update_client_def)
qed

lemma kept_releasePlayer [simp]: "kept s (releasePlayer k s)"
  by (auto simp: releasePlayer_def kept_def split: option.splits)

lemma kept_releaseSound [simp]: "kept s (releaseSound s)"
proof -
  let ?s1 = "s\<lparr>mSoundRef := mSoundRef s - 1,
               history := history s @ [SoundRefWrite (mSoundRef s - 1)]\<rparr>"
  have a: "kept s ?s1" by (simp add: kept_def)
  have b: "kept ?s1 (releasePlayer SOUND_RECORDING (releasePlayer SOUND_SHUTTER ?s1))"
    by (rule kept_trans [OF kept_releasePlayer kept_releasePlayer])
  show ?thesis
  proof (cases "mSoundRef s - 1 = 0")
    case True
    then show ?thesis
      using kept_trans [OF a b] by (simp add: releaseSound_def Let_def)
  next
    case False
    then show ?thesis
      using a by (simp add: releaseSound_def Let_def)
  qed
qed

lemma kept_finishCameraOps [simp]: "kept s (finishCameraOps p s)"
proof (cases "heap s p")
  case None
  then show ?thesis by (simp add: finishCameraOps_def)
next
  case (Some c)
  let ?s0 = "s\<lparr>history := history s @ [FinishOp (mClientUid c) (mClientPackageName c)]\<rparr>"
  let ?s1 = "if mOpsActive c then update_client p (\<lambda>c. c\<lparr>mOpsActive := False\<rparr>) ?s0 else s"
  have "kept s ?s0" by (rule kept_trace) simp
  moreover have "kept ?s0 (update_client p (\<lambda>c. c\<lparr>mOpsActive := False\<rparr>) ?s0)"
    by (rule kept_update_client) simp_all
  ultimately have k1: "kept s ?s1"
    by (auto intro: kept_trans)
  have "kept ?s1 (?s1\<lparr>history := history ?s1 @ [StopWatchingMode p]\<rparr>)"
    by (rule kept_trace) simp
  with k1 have "kept s (?s1\<lparr>history := history ?s1 @ [StopWatchingMode p]\<rparr>)"
    by (rule kept_trans)
  with Some show ?thesis by (simp add: finishCameraOps_def Let_def)
qed

lemma kept_Client_dtor [simp]: "kept s (Client_dtor p s)"
  unfolding Client_dtor_def
  by (rule kept_trans [OF kept_trans [OF kept_trans [OF kept_markDestructionStarted
      kept_releaseSound] kept_finishCameraOps] kept_Client_disconnect])

lemma kept_ProClient_dtor [simp]: "kept s (ProClient_dtor p s)"
  unfolding ProClient_dtor_def ProClient_disconnect_def
  by (rule kept_trans [OF kept_markDestructionStarted kept_BasicClient_disconnect])

lemma kept_BasicClient_dtor [simp]: "kept s (BasicClient_dtor p s)"
  by (simp add: BasicClient_dtor_def)

lemma removeClientByRemote_fields [simp]:
  "mBusy (removeClientByRemote b s) = mBusy s"
  "mSoundRef (removeClientByRemote b s) = mSoundRef s"
  "mSoundPlayer (removeClientByRemote b s) = mSoundPlayer s"
  "heap (removeClientByRemote b s) = heap s"
  using removeClientByRemote_form [of b s] by auto

lemma update_client_fields [simp]:
  "mBusy (update_client p f s) = mBusy s"
  "mSoundRef (update_client p f s) = mSoundRef s"
  "mSoundPlayer (update_client p f s) = mSoundPlayer s"
  "mClient (update_client p f s) = mClient s"
  "mProClientList (update_client p f s) = mProClientList s"
  "history (update_client p f s) = history s"
  "mNumberOfCameras (update_client p f s) = mNumberOfCameras s"
  "mModule (update_client p f s) = mModule s"
  "nextId (update_client p f s) = nextId s"
  "heap (update_client p f s) = (heap s)(p := map_option f (heap s p))"
  by (simp_all add: update_client_def)

lemma releasePlayer_fields [simp]:
  "mBusy (releasePlayer k s) = mBusy s"
  "mSoundRef (releasePlayer k s) = mSoundRef s"
  "mClient (releasePlayer k s) = mClient s"
  "mProClientList (releasePlayer k s) = mProClientList s"
  "heap (releasePlayer k s) = heap s"
  "mSoundPlayer (releasePlayer k s) = (mSoundPlayer s)(k := None)"
  by (auto simp: releasePlayer_def split: option.splits)

lemma releaseSound_fields [simp]:
  "mBusy (releaseSound s) = mBusy s"
  "mSoundRef (releaseSound s) = mSoundRef s - 1"
  "mClient (releaseSound s) = mClient s"
  "mProClientList (releaseSound s) = mProClientList s"
  "heap (releaseSound s) = heap s"
  by (simp_all add: releaseSound_def Let_def)

lemma releaseSound_players:
  "mSoundRef s = 1 \<Longrightarrow> mSoundPlayer (releaseSound s) k = None"
  by (cases k) (simp_all add: releaseSound_def Let_def)

lemma clear_mOpsActive: "\<not> mOpsActive c \<Longrightarrow> c\<lparr>mOpsActive := False\<rparr> = c"
  by (cases c) simp

lemma finishCameraOps_fields [simp]:
  "mBusy (finishCameraOps p s) = mBusy s"
  "mSoundRef (finishCameraOps p s) = mSoundRef s"
  "mSoundPlayer (finishCameraOps p s) = mSoundPlayer s"
  "mClient (finishCameraOps p s) = mClient s"
  "mProClientList (finishCameraOps p s) = mProClientList s"
  "heap (finishCameraOps p s) = (heap s)(p := map_option (\<lambda>c. c\<lparr>mOpsActive := False\<rparr>) (heap s p))"
  "history (finishCameraOps p s) = history s @
     (case heap s p of None \<Rightarrow> []
      | Some c \<Rightarrow> (if mOpsActive c then [FinishOp (mClientUid c) (mClientPackageName c)] else [])
                  @ [StopWatchingMode p])"
  by (auto simp: finishCameraOps_def Let_def clear_mOpsActive split: option.splits)

lemma markDestructionStarted_fields [simp]:
  "mBusy (markDestructionStarted p s) = mBusy s"
  "mSoundRef (markDestructionStarted p s) = mSoundRef s"
  "mSoundPlayer (markDestructionStarted p s) = mSoundPlayer s"
  "mClient (markDestructionStarted p s) = mClient s"
  "mProClientList (markDestructionStarted p s) = mProClientList s"
  "history (markDestructionStarted p s) = history s @ [DestructionStarted p]"
  "heap (markDestructionStarted p s) =
     (heap s)(p := map_option (\<lambda>c. c\<lparr>mDestructionStarted := True\<rparr>) (heap s p))"
  by (simp_all add: markDestructionStarted_def)

lemma setCameraFree_fields [simp]:
  "mBusy (setCameraFree i s) = (mBusy s)(i := 0)"
  "mSoundRef (setCameraFree i s) = mSoundRef s"
  "mSoundPlayer (setCameraFree i s) = mSoundPlayer s"
  "mClient (setCameraFree i s) = mClient s"
  "mProClientList (setCameraFree i s) = mProClientList s"
  "history (setCameraFree i s) = history s @ [BusyWrite i 0]"
  "heap (setCameraFree i s) = heap s"
  by (simp_all add: setCameraFree_def)

lemma BasicClient_disconnect_fields [simp]:
  "mBusy (BasicClient_disconnect p s) = mBusy s"
  "mSoundRef (BasicClient_disconnect p s) = mSoundRef s"
  "mSoundPlayer (BasicClient_disconnect p s) = mSoundPlayer s"
  "heap (BasicClient_disconnect p s) = heap s"
  by (simp_all add: BasicClient_disconnect_def split: option.splits)

lemma Client_disconnect_fields [simp]:
  "mSoundRef (Client_disconnect p s) = mSoundRef s"
  "mSoundPlayer (Client_disconnect p s) = mSoundPlayer s"
  "heap (Client_disconnect p s) = heap s"
  by (simp_all add: Client_disconnect_def split: option.splits)

lemma Client_disconnect_unfold:
  "heap s p = Some c \<Longrightarrow>
     Client_disconnect p s = setCameraFree (mCameraId c) (removeClientByRemote (mRemoteCallback c) s)"
  by (simp add: Client_disconnect_def BasicClient_disconnect_def)

lemma Client_disconnect_mBusy:
  "heap s p = Some c \<Longrightarrow> mBusy (Client_disconnect p s) = (mBusy s)(mCameraId c := 0)"
  by (simp add: Client_disconnect_unfold)

lemma Client_dtor_unfold:
  assumes "heap s p = Some c"
  shows "Client_dtor p s =
           setCameraFree (mCameraId c)
             (removeClientByRemote (mRemoteCallback c)
                (finishCameraOps p (releaseSound (markDestructionStarted p s))))"
proof -
  have "heap (finishCameraOps p (releaseSound (markDestructionStarted p s))) p
          = Some (c\<lparr>mDestructionStarted := True, mOpsActive := False\<rparr>)"
    using assms by simp
  then show ?thesis
    by (simp add: Client_dtor_def Client_disconnect_unfold)
qed

lemma findClientUnsafe_from_no_match:
  assumes "\<And>j q d. mClient s j = Some q \<Longrightarrow> promote (heap s) q = Some d \<Longrightarrow> mRemoteCallback d \<noteq> b"
  shows "findClientUnsafe_from b i s = (None, - 1, s\<lparr>mClient := sweep s i\<rparr>)"
  using assms
proof (induction b i s rule: findClientUnsafe_from.induct)
  case (1 b i s)
  show ?case
  proof (cases "i < mNumberOfCameras s")
    case False
    then have "sweep s i = mClient s"
      by (auto simp: sweep_def fun_eq_iff)
    with False show ?thesis
      by (subst findClientUnsafe_from.simps) simp
  next
    case True
    show ?thesis
    proof (cases "mClient s i")
      case None
      have "sweep s (i + 1) = sweep s i"
      proof (rule ext)
        fix j show "sweep s (i + 1) j = sweep s i j"
          using None by (cases "j = i") (auto simp: sweep_def split: option.splits)
      qed
      with 1(1) [OF True None] 1(4) True None show ?thesis
        by (subst findClientUnsafe_from.simps) simp
    next
      case (Some p)
      show ?thesis
      proof (cases "promote (heap s) p")
        case None
        let ?s' = "s\<lparr>mClient := (mClient s)(i := None)\<rparr>"
        have pre: "\<And>j q d. mClient ?s' j = Some q \<Longrightarrow> promote (heap ?s') q = Some d
                     \<Longrightarrow> mRemoteCallback d \<noteq> b"
          using 1(4) by (auto split: if_splits)
        have "sweep ?s' (i + 1) = sweep s i"
        proof (rule ext)
          fix j show "sweep ?s' (i + 1) j = sweep s i j"
            using Some None True by (cases "j = i") (auto simp: sweep_def split: option.splits)
        qed
        with 1(2) [OF True Some None pre] True Some None show ?thesis
          by (subst findClientUnsafe_from.simps) simp
      next
        case (Some c)
        with 1(4) \<open>mClient s i = Some p\<close> have ne: "b \<noteq> mRemoteCallback c" by blast
        have "sweep s (i + 1) = sweep s i"
        proof (rule ext)
          fix j show "sweep s (i + 1) j = sweep s i j"
            using Some \<open>mClient s i = Some p\<close> by (cases "j = i") (auto simp: sweep_def split: option.splits)
        qed
        with 1(3) [OF True \<open>mClient s i = Some p\<close> Some ne] 1(4) True \<open>mClient s i = Some p\<close> Some ne
        show ?thesis
          by (subst findClientUnsafe_from.simps) simp
      qed
    qed
  qed
qed

lemma findProClientUnsafe_mClient:
  "mClient (snd (findProClientUnsafe b s)) = mClient s"
  using findProClientUnsafe_from_form [of b 0 None s]
  by (auto simp: findProClientUnsafe_def)

lemma sweep_history [simp]: "sweep (s\<lparr>history := h\<rparr>) i = sweep s i"
  by (auto simp: sweep_def fun_eq_iff split: option.splits)

lemma removeClientByRemote_no_match:
  assumes "\<And>j q d. mClient s j = Some q \<Longrightarrow> promote (heap s) q = Some d \<Longrightarrow> mRemoteCallback d \<noteq> b"
  shows "mClient (removeClientByRemote b s) = sweep s 0"
    and "history (removeClientByRemote b s) = history s @ [RemoveClientByRemote b]
           \<or> (\<exists>x. x \<noteq> ClientObject x' \<and>
                 history (removeClientByRemote b s)
                   = history s @ [RemoveClientByRemote b, UnlinkToDeath x])"
proof -
  let ?s0 = "s\<lparr>history := history s @ [RemoveClientByRemote b]\<rparr>"
  have pre: "\<And>j q d. mClient ?s0 j = Some q \<Longrightarrow> promote (heap ?s0) q = Some d
               \<Longrightarrow> mRemoteCallback d \<noteq> b"
    using assms by simp
  from findClientUnsafe_from_no_match [where i = 0 and s = ?s0 and b = b, OF pre]
  have fc: "findClientUnsafe b ?s0 = (None, - 1, ?s0\<lparr>mClient := sweep s 0\<rparr>)"
    by (simp add: findClientUnsafe_def)
  obtain q s2 where fp: "findProClientUnsafe b (?s0\<lparr>mClient := sweep s 0\<rparr>) = (q, s2)"
    by (cases "findProClientUnsafe b (?s0\<lparr>mClient := sweep s 0\<rparr>)") auto
  from findProClientUnsafe_from_form [of b 0 None "?s0\<lparr>mClient := sweep s 0\<rparr>"] fp
  obtain g where s2: "s2 = ?s0\<lparr>mClient := sweep s 0, mProClientList := g\<rparr>"
    by (auto simp: findProClientUnsafe_def)
  with fc fp show "mClient (removeClientByRemote b s) = sweep s 0"
    by (auto simp: removeClientByRemote_def split: option.splits)
  from s2 fc fp show "history (removeClientByRemote b s) = history s @ [RemoveClientByRemote b]
           \<or> (\<exists>x. x \<noteq> ClientObject x' \<and>
                 history (removeClientByRemote b s)
                   = history s @ [RemoveClientByRemote b, UnlinkToDeath x])"
    by (auto simp: removeClientByRemote_def split: option.splits)
qed

lemma promote_upd:
  "promote (h(p := oc)) q = (if q = p then (case oc of None \<Rightarrow> None | Some c \<Rightarrow> if alive c then Some c else None) else promote h q)"
  by (simp add: promote_def)

lemma removeClientByRemote_trace:
  "\<exists>t. history (removeClientByRemote b s) = history s @ t \<and> quiet t"
  using kept_removeClientByRemote [of s b] by (simp add: kept_def)

lemma releaseSound_trace:
  "\<exists>t. history (releaseSound s) = history s @ t \<and> quiet t"
  using kept_releaseSound [of s] by (simp add: kept_def)

lemma free_fields [simp]:
  "mBusy (free p s) = mBusy s"
  "mSoundRef (free p s) = mSoundRef s"
  "mSoundPlayer (free p s) = mSoundPlayer s"
  "mClient (free p s) = mClient s"
  "mProClientList (free p s) = mProClientList s"
  "mNumberOfCameras (free p s) = mNumberOfCameras s"
  "mModule (free p s) = mModule s"
  "nextId (free p s) = nextId s"
  "heap (free p s) = (heap s)(p := None)"
  "history (free p s) = history s @ [Delete p]"
  by (simp_all add: free_def)

lemma sweep_cong:
  assumes "mClient s' = mClient s" "mNumberOfCameras s' = mNumberOfCameras s"
    and "\<And>q. (promote (heap s') q = None) = (promote (heap s) q = None)"
  shows "sweep s' i = sweep s i"
  using assms by (auto simp: sweep_def fun_eq_iff split: option.splits)

lemma loadSound_fields [simp]:
  "mBusy (loadSound e s) = mBusy s"
  "mSoundRef (loadSound e s) = mSoundRef s + 1"
  "mClient (loadSound e s) = mClient s"
  "mProClientList (loadSound e s) = mProClientList s"
  "mNumberOfCameras (loadSound e s) = mNumberOfCameras s"
  "mModule (loadSound e s) = mModule s"
  "nextId (loadSound e s) = nextId s"
  "heap (loadSound e s) = heap s"
  "history (loadSound e s) = history s @ [SoundRefWrite (mSoundRef s + 1)]"
  by (simp_all add: loadSound_def Let_def)

lemma setCameraBusy_fields [simp]:
  "mBusy (setCameraBusy i s) = (mBusy s)(i := 1)"
  "mSoundRef (setCameraBusy i s) = mSoundRef s"
  "mSoundPlayer (setCameraBusy i s) = mSoundPlayer s"
  "mClient (setCameraBusy i s) = mClient s"
  "mProClientList (setCameraBusy i s) = mProClientList s"
  "mNumberOfCameras (setCameraBusy i s) = mNumberOfCameras s"
  "mModule (setCameraBusy i s) = mModule s"
  "nextId (setCameraBusy i s) = nextId s"
  "heap (setCameraBusy i s) = heap s"
  "history (setCameraBusy i s) = history s @ [BusyWrite i 1]"
  by (simp_all add: setCameraBusy_def)

lemma allocate_fields [simp]:
  "fst (allocate c s) = nextId s"
  "mBusy (snd (allocate c s)) = mBusy s"
  "mSoundRef (snd (allocate c s)) = mSoundRef s"
  "mSoundPlayer (snd (allocate c s)) = mSoundPlayer s"
  "mClient (snd (allocate c s)) = mClient s"
  "mProClientList (snd (allocate c s)) = mProClientList s"
  "mNumberOfCameras (snd (allocate c s)) = mNumberOfCameras s"
  "mModule (snd (allocate c s)) = mModule s"
  "nextId (snd (allocate c s)) = Suc (nextId s)"
  "heap (snd (allocate c s)) = (heap s)(nextId s := Some c)"
  "history (snd (allocate c s)) = history s @ [New (nextId s) (variant c)]"
  by (simp_all add: allocate_def)

lemma new_Client_fields [simp]:
  "fst (new_Client e v b n i f pid uid sp s) = nextId s"
  "mBusy (snd (new_Client e v b n i f pid uid sp s)) = (mBusy s)(i := 1)"
  "mSoundRef (snd (new_Client e v b n i f pid uid sp s)) = mSoundRef s + 1"
  "mClient (snd (new_Client e v b n i f pid uid sp s)) = mClient s"
  "mProClientList (snd (new_Client e v b n i f pid uid sp s)) = mProClientList s"
  "mNumberOfCameras (snd (new_Client e v b n i f pid uid sp s)) = mNumberOfCameras s"
  "mModule (snd (new_Client e v b n i f pid uid sp s)) = mModule s"
  "nextId (snd (new_Client e v b n i f pid uid sp s)) = Suc (nextId s)"
  "heap (snd (new_Client e v b n i f pid uid sp s))
     = (heap s)(nextId s := Some (BasicClient_ctor v b n i f pid uid sp))"
  "history (snd (new_Client e v b n i f pid uid sp s))
     = history s @ [New (nextId s) v, BusyWrite i 1, SoundRefWrite (mSoundRef s + 1)]"
  by (simp_all add: new_Client_def split_beta)

lemma new_ProClient_fields [simp]:
  "fst (new_ProClient b n i f pid uid sp s) = nextId s"
  "mBusy (snd (new_ProClient b n i f pid uid sp s)) = mBusy s"
  "mSoundRef (snd (new_ProClient b n i f pid uid sp s)) = mSoundRef s"
  "mClient (snd (new_ProClient b n i f pid uid sp s)) = mClient s"
  "mNumberOfCameras (snd (new_ProClient b n i f pid uid sp s)) = mNumberOfCameras s"
  "mModule (snd (new_ProClient b n i f pid uid sp s)) = mModule s"
  "nextId (snd (new_ProClient b n i f pid uid sp s)) = Suc (nextId s)"
  "heap (snd (new_ProClient b n i f pid uid sp s))
     = (heap s)(nextId s := Some (BasicClient_ctor ProCamera2Client b n i f pid uid sp))"
  "history (snd (new_ProClient b n i f pid uid sp s)) = history s @ [New (nextId s) ProCamera2Client]"
  by (simp_all add: new_ProClient_def)

text \<open>What the release of the last strong reference does, by the class of the object.\<close>

lemma decStrong_exclusive:
  assumes "heap s p = Some c" "alive c" "variant c \<noteq> ProCamera2Client"
  shows "decStrong p s =
           free p (BasicClient_dtor p (Client_dtor p (update_client p (\<lambda>c. c\<lparr>alive := False\<rparr>) s)))"
  using assms by (cases "variant c") (simp_all add: decStrong_def)

lemma decStrong_observer:
  assumes "heap s p = Some c" "alive c" "variant c = ProCamera2Client"
  shows "decStrong p s =
           free p (BasicClient_dtor p (ProClient_dtor p (update_client p (\<lambda>c. c\<lparr>alive := False\<rparr>) s)))"
  using assms by (simp add: decStrong_def)

lemma decStrong_idle:
  "heap s p = None \<or> (\<exists>c. heap s p = Some c \<and> \<not> alive c) \<Longrightarrow> decStrong p s = s"
  by (auto simp: decStrong_def)

lemma decStrong_cases:
  obtains (idle) "decStrong p s = s" "\<not> is_live_client (heap s p)"
      "heap s p = None \<or> (\<exists>c. heap s p = Some c \<and> \<not> alive c)"
  | (exclusive) c where "heap s p = Some c" "alive c" "variant c \<noteq> ProCamera2Client"
      "is_live_client (heap s p)"
      "decStrong p s =
         free p (BasicClient_dtor p (Client_dtor p (update_client p (\<lambda>c. c\<lparr>alive := False\<rparr>) s)))"
  | (observer) c where "heap s p = Some c" "alive c" "variant c = ProCamera2Client"
      "\<not> is_live_client (heap s p)"
      "decStrong p s =
         free p (BasicClient_dtor p (ProClient_dtor p (update_client p (\<lambda>c. c\<lparr>alive := False\<rparr>) s)))"
proof (cases "heap s p")
  case None
  then show ?thesis using idle decStrong_idle [of s p] by (simp add: is_live_client_def)
next
  case (Some c)
  show ?thesis
  proof (cases "alive c")
    case False
    with Some show ?thesis using idle decStrong_idle [of s p] by (simp add: is_live_client_def)
  next
    case True
    show ?thesis
    proof (cases "variant c = ProCamera2Client")
      case True
      with Some \<open>alive c\<close> show ?thesis
        using observer decStrong_observer [of s p c] by (simp add: is_live_client_def)
    next
      case False
      with Some \<open>alive c\<close> show ?thesis
        using exclusive decStrong_exclusive [of s p c] by (simp add: is_live_client_def)
    qed
  qed
qed

lemma kept_dtor_chain:
  "kept s0 (BasicClient_dtor p (Client_dtor p s0))"
  "kept s0 (BasicClient_dtor p (ProClient_dtor p s0))"
  by (rule kept_trans [OF kept_Client_dtor kept_BasicClient_dtor],
      rule kept_trans [OF kept_ProClient_dtor kept_BasicClient_dtor])

lemma decStrong_config [simp]:
  "mNumberOfCameras (decStrong p s) = mNumberOfCameras s"
  "mModule (decStrong p s) = mModule s"
  "nextId (decStrong p s) = nextId s"
  "constructed (history (decStrong p s)) = constructed (history s)"
proof -
  let ?s0 = "update_client p (\<lambda>c. c\<lparr>alive := False\<rparr>) s"
  note k1 = kept_fields [OF kept_dtor_chain(1) [of ?s0 p]]
  note k2 = kept_fields [OF kept_dtor_chain(2) [of ?s0 p]]
  show "mNumberOfCameras (decStrong p s) = mNumberOfCameras s"
    by (cases rule: decStrong_cases [where p = p and s = s]) (simp_all add: k1 k2)
  show "mModule (decStrong p s) = mModule s"
    by (cases rule: decStrong_cases [where p = p and s = s]) (simp_all add: k1 k2)
  show "nextId (decStrong p s) = nextId s"
    by (cases rule: decStrong_cases [where p = p and s = s]) (simp_all add: k1 k2)
  show "constructed (history (decStrong p s)) = constructed (history s)"
    by (cases rule: decStrong_cases [where p = p and s = s]) (simp_all add: k1 k2)
qed

lemma BasicClient_dtor_fields [simp]:
  "mBusy (BasicClient_dtor p s) = mBusy s"
  "mSoundRef (BasicClient_dtor p s) = mSoundRef s"
  by (simp_all add: BasicClient_dtor_def)

lemma ProClient_dtor_fields [simp]:
  "mBusy (ProClient_dtor p s) = mBusy s"
  "mSoundRef (ProClient_dtor p s) = mSoundRef s"
  by (simp_all add: ProClient_dtor_def ProClient_disconnect_def)

lemma Client_dtor_fields:
  assumes "heap s p = Some c"
  shows "mBusy (Client_dtor p s) = (mBusy s)(mCameraId c := 0)"
    and "mSoundRef (Client_dtor p s) = mSoundRef s - 1"
  by (simp_all add: Client_dtor_unfold [OF assms])

lemma decStrong_mSoundRef:
  "mSoundRef (decStrong p s) = mSoundRef s - (if is_live_client (heap s p) then 1 else 0)"
proof (cases rule: decStrong_cases [where p = p and s = s])
  case idle
  then show ?thesis by simp
next
  case (exclusive c)
  have "heap (update_client p (\<lambda>c. c\<lparr>alive := False\<rparr>) s) p = Some (c\<lparr>alive := False\<rparr>)"
    using exclusive(1) by simp
  from Client_dtor_fields(2) [OF this] exclusive show ?thesis by simp
next
  case (observer c)
  then show ?thesis by simp
qed


lemma is_live_client_None [simp]: "\<not> is_live_client None"
  by (simp add: is_live_client_def)

lemma decStrong_heap:
  "heap (decStrong p s) q = None \<longleftrightarrow> heap s q = None \<or> (q = p \<and> (\<exists>c. heap s p = Some c \<and> alive c))"
  "is_live_client (heap (decStrong p s) q) \<longleftrightarrow> q \<noteq> p \<and> is_live_client (heap s q)"
proof -
  let ?s0 = "update_client p (\<lambda>c. c\<lparr>alive := False\<rparr>) s"
  note k1 = kept_fields(4,5) [OF kept_dtor_chain(1) [of ?s0 p]]
  note k2 = kept_fields(4,5) [OF kept_dtor_chain(2) [of ?s0 p]]
  have s0: "q \<noteq> p \<Longrightarrow> heap ?s0 q = heap s q" by simp
  show "heap (decStrong p s) q = None \<longleftrightarrow> heap s q = None \<or> (q = p \<and> (\<exists>c. heap s p = Some c \<and> alive c))"
  proof (cases rule: decStrong_cases [where p = p and s = s])
    case idle
    then show ?thesis by auto
  next
    case (exclusive c)
    then show ?thesis by (cases "q = p") (simp_all add: k1 s0 del: update_client_fields)
  next
    case (observer c)
    then show ?thesis by (cases "q = p") (simp_all add: k2 s0 del: update_client_fields)
  qed
  show "is_live_client (heap (decStrong p s) q) \<longleftrightarrow> q \<noteq> p \<and> is_live_client (heap s q)"
  proof (cases rule: decStrong_cases [where p = p and s = s])
    case idle
    then show ?thesis by auto
  next
    case (exclusive c)
    then show ?thesis by (cases "q = p") (simp_all add: k1 s0 del: update_client_fields)
  next
    case (observer c)
    then show ?thesis by (cases "q = p") (simp_all add: k2 s0 del: update_client_fields)
  qed
qed

lemma notifyError_fields [simp]:
  "mBusy (notifyError p s) = mBusy s"
  "mSoundRef (notifyError p s) = mSoundRef s"
  "mClient (notifyError p s) = mClient s"
  "mProClientList (notifyError p s) = mProClientList s"
  "mNumberOfCameras (notifyError p s) = mNumberOfCameras s"
  "mModule (notifyError p s) = mModule s"
  "nextId (notifyError p s) = nextId s"
  "heap (notifyError p s) = heap s"
  by (auto simp: notifyError_def split: option.splits client_variant.splits)

lemma disconnect_mSoundRef [simp]: "mSoundRef (disconnect p s) = mSoundRef s"
  by (simp add: disconnect_def ProClient_disconnect_def split: option.splits client_variant.splits)

lemma disconnect_heap [simp]: "heap (disconnect p s) = heap s"
  by (simp add: disconnect_def ProClient_disconnect_def split: option.splits client_variant.splits)

lemma getClientByRemote_form:
  "\<exists>f. snd (getClientByRemote b s) = s\<lparr>mClient := f\<rparr>"
  using findClientUnsafe_from_form [of b 0 s]
  by (auto simp: getClientByRemote_def findClientUnsafe_def split: prod.splits)

lemma kept_getClientByRemote [simp]: "kept s (snd (getClientByRemote b s))"
  using getClientByRemote_form [of b s] by auto

lemma getClientByRemote_fields [simp]:
  "mSoundRef (snd (getClientByRemote b s)) = mSoundRef s"
  "mBusy (snd (getClientByRemote b s)) = mBusy s"
  "heap (snd (getClientByRemote b s)) = heap s"
  using getClientByRemote_form [of b s] by auto

lemma binderDied_unfold:
  "binderDied who s =
     (case fst (getClientByRemote who s) of
        None \<Rightarrow> snd (getClientByRemote who s)
      | Some p \<Rightarrow> disconnect p (snd (getClientByRemote who s)))"
  by (simp add: binderDied_def split: prod.splits option.splits)

lemma kept_binderDied [simp]: "kept s (binderDied who s)"
  unfolding binderDied_unfold
  by (auto split: option.splits intro: kept_trans [OF kept_getClientByRemote kept_disconnect])

lemma binderDied_fields [simp]:
  "mSoundRef (binderDied who s) = mSoundRef s"
  "heap (binderDied who s) = heap s"
  unfolding binderDied_unfold by (simp_all split: option.splits)

lemma stampClientPid_fields [simp]:
  "mBusy (stampClientPid p pid s) = mBusy s"
  "mSoundRef (stampClientPid p pid s) = mSoundRef s"
  "mClient (stampClientPid p pid s) = mClient s"
  "mProClientList (stampClientPid p pid s) = mProClientList s"
  "mNumberOfCameras (stampClientPid p pid s) = mNumberOfCameras s"
  "mModule (stampClientPid p pid s) = mModule s"
  "nextId (stampClientPid p pid s) = nextId s"
  "heap (stampClientPid p pid s) = (heap s)(p := map_option (\<lambda>c. c\<lparr>mClientPid := pid\<rparr>) (heap s p))"
  "history (stampClientPid p pid s) = history s @ [ClientPidWrite p pid]"
  by (simp_all add: stampClientPid_def)

lemma opChanged_config [simp]:
  "mNumberOfCameras (opChanged e p op n s) = mNumberOfCameras s"
  "mModule (opChanged e p op n s) = mModule s"
  "nextId (opChanged e p op n s) = nextId s"
  "mSoundRef (opChanged e p op n s) = mSoundRef s"
  by (simp_all add: opChanged_def kept_fields [OF kept_disconnect])

lemma opChanged_heap:
  "heap (opChanged e p op n s) = heap s
   \<or> heap (opChanged e p op n s) = (heap s)(p := map_option (\<lambda>c. c\<lparr>mClientPid := getCallingPid e\<rparr>) (heap s p))"
  by (simp add: opChanged_def)

lemma opChanged_liveness [simp]:
  "(heap (opChanged e p op n s) q = None) = (heap s q = None)"
  "is_live_client (heap (opChanged e p op n s) q) = is_live_client (heap s q)"
  using opChanged_heap [of e p op n s]
  by (auto simp: is_live_client_def split: option.splits if_splits)

lemma OpsCallback_opChanged_config [simp]:
  "mNumberOfCameras (OpsCallback_opChanged e p op n s) = mNumberOfCameras s"
  "mModule (OpsCallback_opChanged e p op n s) = mModule s"
  "nextId (OpsCallback_opChanged e p op n s) = nextId s"
  "mSoundRef (OpsCallback_opChanged e p op n s) = mSoundRef s"
  "(heap (OpsCallback_opChanged e p op n s) q = None) = (heap s q = None)"
  "is_live_client (heap (OpsCallback_opChanged e p op n s) q) = is_live_client (heap s q)"
  by (simp_all add: OpsCallback_opChanged_def split: option.splits)

lemma connect_finish_config [simp]:
  "mNumberOfCameras (snd (connect_finish e b i ps)) = mNumberOfCameras (snd ps)"
  "mModule (snd (connect_finish e b i ps)) = mModule (snd ps)"
  "nextId (snd (connect_finish e b i ps)) = nextId (snd ps)"
  by (cases ps, simp add: connect_finish_def)+

lemma connect_dispatch_config [simp]:
  "mNumberOfCameras (snd (connect_dispatch e m b i n uid s)) = mNumberOfCameras s"
  "mModule (snd (connect_dispatch e m b i n uid s)) = mModule s"
  by (simp_all add: connect_dispatch_def split_beta Let_def)

lemma connect_locked_config [simp]:
  "mNumberOfCameras (snd (connect_locked e m b i n uid s)) = mNumberOfCameras s"
  "mModule (snd (connect_locked e m b i n uid s)) = mModule s"
  by (simp_all add: connect_locked_def Let_def split: option.splits)

lemma connect_config [simp]:
  "mNumberOfCameras (snd (connect e b i n uid s)) = mNumberOfCameras s"
  "mModule (snd (connect e b i n uid s)) = mModule s"
  by (simp_all add: connect_def Let_def split: option.splits)

lemma connectPro_config [simp]:
  "mNumberOfCameras (snd (connectPro e b i s)) = mNumberOfCameras s"
  "mModule (snd (connectPro e b i s)) = mModule s"
  by (simp_all add: connectPro_def Let_def split_beta split: option.splits)

lemma getCameraInfo_state [simp]: "snd (snd (getCameraInfo i ci s)) = s"
  by (simp add: getCameraInfo_def split_beta split: option.splits)

lemma handle_config [simp]:
  "mNumberOfCameras (handle r s) = mNumberOfCameras s"
  "mModule (handle r s) = mModule s"
  by (cases r; simp add: kept_fields [OF kept_binderDied] kept_fields [OF kept_disconnect]
        split: option.splits)+

lemma run_config [simp]:
  "mNumberOfCameras (run rs s) = mNumberOfCameras s"
  "mModule (run rs s) = mModule s"
  by (induction rs arbitrary: s; simp)+

lemma setCameraFree_from_config [simp]:
  "mNumberOfCameras (setCameraFree_from i n s) = mNumberOfCameras s"
  "mModule (setCameraFree_from i n s) = mModule s"
  using setCameraFree_from_form [of i n s] by auto

lemma started_mNumberOfCameras:
  "mNumberOfCameras (started MAX_CAMERAS hal u) =
     (case hal of None \<Rightarrow> 0 | Some m \<Rightarrow> min (get_number_of_cameras m) (int MAX_CAMERAS))"
  by (simp add: started_def onFirstRef_def Let_def min_def split: option.splits)

lemma count_clients_cong:
  "(\<And>q. q < n \<Longrightarrow> is_live_client (h' q) = is_live_client (h q))
     \<Longrightarrow> count_clients h' n = count_clients h n"
  by (induction n) auto

lemma count_clients_drop:
  assumes "p < n" "is_live_client (h p)" "\<not> is_live_client (h' p)"
    and "\<And>q. q \<noteq> p \<Longrightarrow> is_live_client (h' q) = is_live_client (h q)"
  shows "count_clients h n = Suc (count_clients h' n)"
  using assms(1)
proof (induction n)
  case 0
  then show ?case by simp
next
  case (Suc n)
  show ?case
  proof (cases "p = n")
    case True
    have "count_clients h' n = count_clients h n"
      by (rule count_clients_cong) (simp add: assms(4) True)
    with True assms(2,3) show ?thesis by simp
  next
    case False
    with Suc have "count_clients h n = Suc (count_clients h' n)" by simp
    with False assms(4) [of n] show ?thesis by simp
  qed
qed

lemma store_ok_same:
  assumes "store_ok s" "nextId s' = nextId s" "mSoundRef s' = mSoundRef s"
    and "\<And>q. (heap s' q = None) = (heap s q = None)"
    and "\<And>q. is_live_client (heap s' q) = is_live_client (heap s q)"
  shows "store_ok s'"
proof -
  have "count_clients (heap s') (nextId s) = count_clients (heap s) (nextId s)"
    by (rule count_clients_cong) (simp add: assms(5))
  with assms show ?thesis by (simp add: store_ok_def live_clients_def)
qed

lemma store_ok_kept:
  "store_ok s \<Longrightarrow> kept s s' \<Longrightarrow> mSoundRef s' = mSoundRef s \<Longrightarrow> store_ok s'"
  by (rule store_ok_same) (simp_all add: kept_fields)

lemma store_ok_registry [simp]:
  "store_ok (s\<lparr>mClient := f\<rparr>) = store_ok s"
  "store_ok (s\<lparr>mProClientList := g\<rparr>) = store_ok s"
  "store_ok (s\<lparr>history := t\<rparr>) = store_ok s"
  "store_ok (s\<lparr>mBusy := b\<rparr>) = store_ok s"
  by (simp_all add: store_ok_def live_clients_def)

lemma store_ok_decStrong:
  assumes "store_ok s"
  shows "store_ok (decStrong p s)"
proof (cases "is_live_client (heap s p)")
  case False
  have "count_clients (heap (decStrong p s)) (nextId s) = count_clients (heap s) (nextId s)"
    by (rule count_clients_cong) (use False in \<open>auto simp: decStrong_heap(2)\<close>)
  with assms False show ?thesis
    by (auto simp: store_ok_def live_clients_def decStrong_mSoundRef decStrong_heap(1))
next
  case True
  then have "heap s p \<noteq> None" by (auto simp: is_live_client_def split: option.splits)
  with assms have lt: "p < nextId s"
    by (metis store_ok_def not_le_imp_less)
  have "count_clients (heap s) (nextId s) = Suc (count_clients (heap (decStrong p s)) (nextId s))"
    by (rule count_clients_drop [where p = p])
       (use lt True in \<open>simp_all add: decStrong_heap(2)\<close>)
  with assms True show ?thesis
    by (auto simp: store_ok_def live_clients_def decStrong_mSoundRef decStrong_heap(1))
qed

lemma store_ok_new_Client:
  assumes "store_ok s" "v \<noteq> ProCamera2Client"
  shows "store_ok (snd (new_Client e v b n i f pid uid sp s))"
proof -
  have "count_clients ((heap s)(nextId s := Some (BasicClient_ctor v b n i f pid uid sp))) (nextId s)
          = count_clients (heap s) (nextId s)"
    by (rule count_clients_cong) simp
  with assms show ?thesis
    by (simp add: store_ok_def live_clients_def is_live_client_def)
qed

lemma store_ok_new_ProClient:
  assumes "store_ok s"
  shows "store_ok (snd (new_ProClient b n i f pid uid sp s))"
proof -
  have "count_clients ((heap s)(nextId s := Some (BasicClient_ctor ProCamera2Client b n i f pid uid sp))) (nextId s)
          = count_clients (heap s) (nextId s)"
    by (rule count_clients_cong) simp
  with assms show ?thesis
    by (simp add: store_ok_def live_clients_def is_live_client_def)
qed

lemma store_ok_connect_finish:
  "store_ok (snd ps) \<Longrightarrow> store_ok (snd (connect_finish e b i ps))"
  by (cases ps) (simp add: connect_finish_def store_ok_decStrong)

lemma store_ok_connect_dispatch:
  "store_ok s \<Longrightarrow> store_ok (snd (connect_dispatch e m b i n uid s))"
  by (simp add: connect_dispatch_def split_beta Let_def store_ok_connect_finish store_ok_new_Client)

lemma store_ok_connect_locked:
  "store_ok s \<Longrightarrow> store_ok (snd (connect_locked e m b i n uid s))"
  by (simp add: connect_locked_def Let_def store_ok_connect_dispatch split: option.splits)

lemma store_ok_connect:
  "store_ok s \<Longrightarrow> store_ok (snd (connect e b i n uid s))"
  by (simp add: connect_def Let_def store_ok_connect_locked split: option.splits)

lemma store_ok_connectPro:
  "store_ok s \<Longrightarrow> store_ok (snd (connectPro e b i s))"
  by (auto simp: connectPro_def Let_def split_beta store_ok_decStrong store_ok_new_ProClient
      split: option.splits)

lemma store_ok_handle:
  assumes "store_ok s"
  shows "store_ok (handle r s)"
proof (cases r)
  case (Connect e b i n uid)
  with assms show ?thesis by (simp add: store_ok_connect)
next
  case (ConnectPro e b i)
  with assms show ?thesis by (simp add: store_ok_connectPro)
next
  case GetNumberOfCameras
  with assms show ?thesis by simp
next
  case (GetCameraInfo i ci)
  with assms show ?thesis by simp
next
  case (BinderDied who)
  with assms show ?thesis
    by (simp add: store_ok_kept [OF _ kept_binderDied])
next
  case (PolicyChanged e p op n)
  with assms show ?thesis
    by (simp add: store_ok_same [where s = s])
next
  case (Disconnect p)
  with assms show ?thesis
    by (simp add: store_ok_kept [OF _ kept_disconnect] split: option.splits)
next
  case (DecStrong p)
  with assms show ?thesis by (simp add: store_ok_decStrong)
qed

lemma store_ok_run: "store_ok s \<Longrightarrow> store_ok (run rs s)"
  by (induction rs arbitrary: s) (simp_all add: store_ok_handle)

lemma store_ok_started: "store_ok (started MAX_CAMERAS hal u)"
proof -
  let ?c = "CameraService_ctor u"
  have c: "store_ok ?c"
    by (simp add: store_ok_def live_clients_def CameraService_ctor_def)
  show ?thesis
  proof (cases hal)
    case None
    with c show ?thesis
      by (simp add: started_def onFirstRef_def store_ok_def live_clients_def)
  next
    case (Some m)
    let ?s1 = "?c\<lparr>mModule := Some m, mNumberOfCameras := get_number_of_cameras m\<rparr>"
    let ?s2 = "if mNumberOfCameras ?s1 > int MAX_CAMERAS
               then ?s1\<lparr>mNumberOfCameras := int MAX_CAMERAS\<rparr> else ?s1"
    have "store_ok ?s2" using c by (simp add: store_ok_def live_clients_def)
    moreover obtain f t where "setCameraFree_from 0 (mNumberOfCameras ?s2) ?s2
        = ?s2\<lparr>mBusy := f, history := history ?s2 @ t\<rparr>"
      using setCameraFree_from_form by blast
    ultimately have "store_ok (setCameraFree_from 0 (mNumberOfCameras ?s2) ?s2)"
      by simp
    with Some show ?thesis
      by (simp add: started_def onFirstRef_def Let_def)
  qed
qed

lemma releaseSound_zero:
  "mSoundRef (releaseSound s) = 0 \<Longrightarrow> mSoundPlayer (releaseSound s) k = None"
  by (rule releaseSound_players) simp

lemma connect_finish_result:
  "fst (connect_finish e b i (p, s1)) = (if initialize_status e = OK then Some p else None)"
  "constructed (history (snd (connect_finish e b i (p, s1)))) = constructed (history s1)"
  "initialize_status e = OK \<Longrightarrow> heap (snd (connect_finish e b i (p, s1))) = heap s1"
  by (simp_all add: connect_finish_def)

lemma connect_dispatch_known:
  assumes "fst (getDeviceVersion m i (- 1)) = CAMERA_DEVICE_API_VERSION_1_0 \<and> v = CameraClient
         \<or> (fst (getDeviceVersion m i (- 1)) = CAMERA_DEVICE_API_VERSION_2_0
            \<or> fst (getDeviceVersion m i (- 1)) = CAMERA_DEVICE_API_VERSION_2_1) \<and> v = Camera2Client"
  shows "connect_dispatch e m b i n uid s =
           connect_finish e b i
             (new_Client e v b n i (snd (getDeviceVersion m i (- 1))) (getCallingPid e) uid (getpid e) s)"
  using assms
  by (auto simp: connect_dispatch_def split_beta CAMERA_DEVICE_API_VERSION_1_0_def
      CAMERA_DEVICE_API_VERSION_2_0_def CAMERA_DEVICE_API_VERSION_2_1_def)

lemma connect_dispatch_known_result:
  assumes "fst (getDeviceVersion m i (- 1)) = CAMERA_DEVICE_API_VERSION_1_0 \<and> v = CameraClient
         \<or> (fst (getDeviceVersion m i (- 1)) = CAMERA_DEVICE_API_VERSION_2_0
            \<or> fst (getDeviceVersion m i (- 1)) = CAMERA_DEVICE_API_VERSION_2_1) \<and> v = Camera2Client"
  shows "constructed (history (snd (connect_dispatch e m b i n uid s)))
           = constructed (history s) @ [(nextId s, v)]"
    and "fst (connect_dispatch e m b i n uid s)
           = (if initialize_status e = OK then Some (nextId s) else None)"
    and "initialize_status e = OK \<Longrightarrow>
           map_option variant (heap (snd (connect_dispatch e m b i n uid s)) (nextId s)) = Some v"
proof -
  let ?N = "new_Client e v b n i (snd (getDeviceVersion m i (- 1))) (getCallingPid e) uid (getpid e) s"
  have "?N = (nextId s, snd ?N)"
    by (metis new_Client_fields(1) prod.collapse)
  then have eq: "connect_dispatch e m b i n uid s = connect_finish e b i (nextId s, snd ?N)"
    using connect_dispatch_known [OF assms, of e b n uid s] by simp
  show "constructed (history (snd (connect_dispatch e m b i n uid s)))
           = constructed (history s) @ [(nextId s, v)]"
    unfolding eq by (simp add: connect_finish_result(2))
  show "fst (connect_dispatch e m b i n uid s)
           = (if initialize_status e = OK then Some (nextId s) else None)"
    unfolding eq by (simp add: connect_finish_result(1))
  show "initialize_status e = OK \<Longrightarrow>
           map_option variant (heap (snd (connect_dispatch e m b i n uid s)) (nextId s)) = Some v"
    unfolding eq by (simp add: connect_finish_result(3))
qed

lemma connect_dispatch_unknown:
  assumes "fst (getDeviceVersion m i (- 1)) \<noteq> CAMERA_DEVICE_API_VERSION_1_0"
    "fst (getDeviceVersion m i (- 1)) \<noteq> CAMERA_DEVICE_API_VERSION_2_0"
    "fst (getDeviceVersion m i (- 1)) \<noteq> CAMERA_DEVICE_API_VERSION_2_1"
  shows "connect_dispatch e m b i n uid s = (None, s)"
  using assms by (simp add: connect_dispatch_def split_beta)

lemma connect_reaches_dispatch:
  assumes "clientUid = USE_CALLING_UID \<or> getCallingPid e = getpid e"
    and "mModule s = Some m"
    and "0 \<le> cameraId" "cameraId < mNumberOfCameras s"
    and "camera_disabled_property e \<noteq> ''1''"
    and "case mClient s cameraId of None \<Rightarrow> True | Some p \<Rightarrow> promote (heap s) p = None"
    and "mBusy s cameraId = 0"
  shows "\<exists>f. connect e cameraClient cameraId clientPackageName clientUid s =
           connect_dispatch e m cameraClient cameraId clientPackageName
             (if clientUid = USE_CALLING_UID then getCallingUid e else clientUid)
             (s\<lparr>mClient := f\<rparr>)"
proof (cases "mClient s cameraId")
  case None
  with assms have "connect e cameraClient cameraId clientPackageName clientUid s =
           connect_dispatch e m cameraClient cameraId clientPackageName
             (if clientUid = USE_CALLING_UID then getCallingUid e else clientUid)
             (s\<lparr>mClient := mClient s\<rparr>)"
    by (auto simp: connect_def connect_locked_def Let_def)
  then show ?thesis by blast
next
  case (Some p)
  with assms have "connect e cameraClient cameraId clientPackageName clientUid s =
           connect_dispatch e m cameraClient cameraId clientPackageName
             (if clientUid = USE_CALLING_UID then getCallingUid e else clientUid)
             (s\<lparr>mClient := (mClient s)(cameraId := None)\<rparr>)"
    by (auto simp: connect_def connect_locked_def Let_def)
  then show ?thesis by blast
qed

lemma Client_disconnect_trace:
  "\<exists>t. history (Client_disconnect p s) = history s @ t \<and> filter is_notification t = []"
  using kept_Client_disconnect [of s p] by (auto simp: kept_def quiet_def)

lemma BasicClient_disconnect_unfold:
  "heap s p = Some c \<Longrightarrow> BasicClient_disconnect p s = removeClientByRemote (mRemoteCallback c) s"
  by (simp add: BasicClient_disconnect_def)





lemma history_commute:
  "s\<lparr>history := h, mProClientList := g\<rparr> = s\<lparr>mProClientList := g, history := h\<rparr>"
  "s\<lparr>history := h, mClient := f\<rparr> = s\<lparr>mClient := f, history := h\<rparr>"
  by (cases s, simp)+

lemma findClientUnsafe_from_history:
  "findClientUnsafe_from b i (s\<lparr>history := h\<rparr>) =
     (fst (findClientUnsafe_from b i s), fst (snd (findClientUnsafe_from b i s)),
      (snd (snd (findClientUnsafe_from b i s)))\<lparr>history := h\<rparr>)"
proof (induction b i s rule: findClientUnsafe_from.induct)
  case (1 b i s)
  show ?case
  proof (cases "i < mNumberOfCameras s")
    case False
    then show ?thesis
      by (subst (1 2 3 4) findClientUnsafe_from.simps) simp
  next
    case True
    show ?thesis
    proof (cases "mClient s i")
      case None
      with True 1(1) show ?thesis
        by (subst (1 2 3 4) findClientUnsafe_from.simps) simp
    next
      case (Some p)
      show ?thesis
      proof (cases "promote (heap s) p")
        case None
        with True Some 1(2) show ?thesis
          by (subst (1 2 3 4) findClientUnsafe_from.simps) (simp add: history_commute)
      next
        case (Some c)
        with True \<open>mClient s i = Some p\<close> 1(3) show ?thesis
          by (subst (1 2 3 4) findClientUnsafe_from.simps) simp
      qed
    qed
  qed
qed

lemma findProClientUnsafe_from_history:
  "findProClientUnsafe_from b i cp (s\<lparr>history := h\<rparr>) =
     (fst (findProClientUnsafe_from b i cp s),
      (snd (findProClientUnsafe_from b i cp s))\<lparr>history := h\<rparr>)"
proof (induction b i cp s rule: findProClientUnsafe_from.induct)
  case (1 who i clientPro s)
  show ?case
  proof (cases "i < mNumberOfCameras s")
    case False
    then show ?thesis
      by (subst (1 2 3) findProClientUnsafe_from.simps) simp
  next
    case True
    with 1 [OF True refl refl refl] show ?thesis
      by (subst (1 2 3) findProClientUnsafe_from.simps) (simp add: Let_def history_commute)
  qed
qed

lemma removeClientByRemote_unfold:
  "removeClientByRemote b s =
     (case findClientUnsafe b s of
        (Some p, i, s1) \<Rightarrow>
          s1\<lparr>mClient := (mClient s1)(i := None),
             history := history s @ [RemoveClientByRemote b, UnlinkToDeath (ClientObject p)]\<rparr>
      | (None, i, s1) \<Rightarrow>
          (case findProClientUnsafe b s1 of
             (Some q, s2) \<Rightarrow>
               (case heap s2 q of
                  Some c \<Rightarrow> s2\<lparr>history := history s @
                     [RemoveClientByRemote b, UnlinkToDeath (RemoteBinder (mRemoteCallback c))]\<rparr>
                | None \<Rightarrow> s2\<lparr>history := history s @ [RemoveClientByRemote b]\<rparr>)
           | (None, s2) \<Rightarrow> s2\<lparr>history := history s @ [RemoveClientByRemote b]\<rparr>))"
proof -
  obtain r i s1 where fc: "findClientUnsafe b s = (r, i, s1)"
    by (cases "findClientUnsafe b s") auto
  obtain f where s1: "s1 = s\<lparr>mClient := f\<rparr>"
    using findClientUnsafe_from_form [of b 0 s] fc by (auto simp: findClientUnsafe_def)
  have fc0: "findClientUnsafe b (s\<lparr>history := history s @ [RemoveClientByRemote b]\<rparr>)
      = (r, i, s\<lparr>mClient := f, history := history s @ [RemoveClientByRemote b]\<rparr>)"
    using fc s1 by (simp add: findClientUnsafe_def findClientUnsafe_from_history)
  obtain q s2 where fp: "findProClientUnsafe b s1 = (q, s2)"
    by (cases "findProClientUnsafe b s1") auto
  obtain g where s2: "s2 = s1\<lparr>mProClientList := g\<rparr>"
    using findProClientUnsafe_from_form [of b 0 None s1] fp by (auto simp: findProClientUnsafe_def)
  have fp0: "findProClientUnsafe b (s\<lparr>mClient := f, history := history s @ [RemoveClientByRemote b]\<rparr>)
      = (q, s\<lparr>mClient := f, mProClientList := g, history := history s @ [RemoveClientByRemote b]\<rparr>)"
    using fp s1 s2 findProClientUnsafe_from_history [where b = b and i = 0 and cp = None
        and s = "s\<lparr>mClient := f\<rparr>" and h = "history s @ [RemoveClientByRemote b]"]
    by (simp add: findProClientUnsafe_def)
  have fp': "findProClientUnsafe b (s\<lparr>mClient := f\<rparr>) = (q, s\<lparr>mClient := f, mProClientList := g\<rparr>)"
    using fp s1 s2 by simp
  show ?thesis
    by (cases r; cases q)
       (simp_all add: removeClientByRemote_def fc fc0 fp' fp0 s1 split: option.splits)
qed

subsection \<open>The order of events in a teardown\<close>

lemma removeClientByRemote_history:
  "\<exists>t. history (removeClientByRemote b s) = history s @ RemoveClientByRemote b # t
       \<and> (t = [] \<or> (\<exists>x. t = [UnlinkToDeath x]))"
  using removeClientByRemote_form [of b s] by auto

lemma Client_disconnect_history:
  assumes "heap s p = Some c"
  shows "\<exists>t. history (Client_disconnect p s)
             = history s @ RemoveClientByRemote (mRemoteCallback c) # t @ [BusyWrite (mCameraId c) 0]
           \<and> (t = [] \<or> (\<exists>x. t = [UnlinkToDeath x]))"
  using removeClientByRemote_history [of "mRemoteCallback c" s]
  by (auto simp: Client_disconnect_unfold [OF assms])




lemma releaseSound_shared:
  "mSoundRef s \<noteq> 1 \<Longrightarrow> history (releaseSound s) = history s @ [SoundRefWrite (mSoundRef s - 1)]"
  by (simp add: releaseSound_def Let_def)

lemma findClientUnsafe_first_live:
  assumes "0 < mNumberOfCameras s" "mClient s 0 = Some q" "heap s q = Some d" "alive d"
    "mRemoteCallback d = b"
  shows "findClientUnsafe b s = (Some q, 0, s)"
  using assms
  by (subst findClientUnsafe_def, subst findClientUnsafe_from.simps) (simp add: promote_def)

lemma removeClientByRemote_first_live:
  assumes "0 < mNumberOfCameras s" "mClient s 0 = Some q" "heap s q = Some d" "alive d"
    "mRemoteCallback d = b"
  shows "removeClientByRemote b s =
           s\<lparr>mClient := (mClient s)(0 := None),
             history := history s @ [RemoveClientByRemote b, UnlinkToDeath (ClientObject q)]\<rparr>"
  by (simp add: removeClientByRemote_unfold findClientUnsafe_first_live [OF assms])

subsection \<open>Requests that leave a busy flag alone\<close>







section \<open>The concrete states\<close>

lemma service0_fields:
  "mModule service0 = Some two_camera_hal"
  "mNumberOfCameras service0 = 2"
  "mBusy service0 = (\<lambda>_. 1)(0 := 0, 1 := 0)"
  "mClient service0 = (\<lambda>_. None)"
  "mSoundRef service0 = 0"
  "heap service0 = (\<lambda>_. None)"
  "nextId service0 = 0"
  "history service0 = [BusyWrite 0 0, BusyWrite 1 0]"
  "mProClientList service0 = (\<lambda>_. [])"
  "mSoundPlayer service0 = (\<lambda>_. None)"
  by (simp_all add: service0_def started_def onFirstRef_def CameraService_ctor_def
      stale_memory_def two_camera_hal_def setCameraFree_from.simps setCameraFree_def Let_def)


lemma getDeviceVersion_two_camera_hal:
  "getDeviceVersion two_camera_hal 0 f = (513, 0)"
  "getDeviceVersion two_camera_hal 1 f = (256, 1)"
  by (simp_all add: getDeviceVersion_def two_camera_hal_def OK_def
      CAMERA_MODULE_API_VERSION_2_0_def CAMERA_DEVICE_API_VERSION_1_0_def)

lemma connect_service0:
  "connect caller 7 0 ''pkg.a'' USE_CALLING_UID service0 =
     (Some 0,
      service0\<lparr>heap := (\<lambda>_. None)(0 := Some client0), nextId := 1,
        history := [BusyWrite 0 0, BusyWrite 1 0, New 0 Camera2Client, BusyWrite 0 1,
                    SoundRefWrite 1, LinkToDeath 7],
        mBusy := (\<lambda>_. 1)(0 := 1, 1 := 0), mSoundRef := 1,
        mSoundPlayer := (\<lambda>_. None)
           (SOUND_SHUTTER := Some ''/system/media/audio/ui/camera_click.ogg'',
            SOUND_RECORDING := Some ''/system/media/audio/ui/VideoRecord.ogg''),
        mClient := (\<lambda>_. None)(0 := Some 0)\<rparr>)"
  by (simp add: connect_def connect_locked_def connect_dispatch_def connect_finish_def
      service0_fields getDeviceVersion_two_camera_hal caller_def USE_CALLING_UID_def
      CAMERA_DEVICE_API_VERSION_1_0_def CAMERA_DEVICE_API_VERSION_2_0_def
      CAMERA_DEVICE_API_VERSION_2_1_def new_Client_def allocate_def client0_def
      setCameraBusy_def loadSound_def newMediaPlayer_def NO_ERROR_def OK_def Let_def
      fun_upd_twist)

lemma service1_fields:
  "mModule service1 = Some two_camera_hal"
  "mNumberOfCameras service1 = 2"
  "mBusy service1 = (\<lambda>_. 1)(0 := 1, 1 := 0)"
  "mClient service1 = (\<lambda>_. None)(0 := Some 0)"
  "mSoundRef service1 = 1"
  "heap service1 = (\<lambda>_. None)(0 := Some client0)"
  "nextId service1 = 1"
  "history service1 = [BusyWrite 0 0, BusyWrite 1 0, New 0 Camera2Client, BusyWrite 0 1,
                      SoundRefWrite 1, LinkToDeath 7]"
  "mProClientList service1 = (\<lambda>_. [])"
  by (simp_all add: service1_def connect_service0 service0_fields)

lemma client_sel:
  "alive client0" "mRemoteCallback client0 = 7" "mCameraId client0 = 0"
  "variant client0 = Camera2Client"
  "alive client1" "mRemoteCallback client1 = 7" "mCameraId client1 = 1"
  "variant client1 = CameraClient" "\<not> mOpsActive client1"
  by (simp_all add: client0_def client1_def)



lemma connect_service1:
  "connect caller 7 1 ''pkg.a'' USE_CALLING_UID service1 =
     (Some 1,
      service1\<lparr>heap := (\<lambda>_. None)(0 := Some client0, 1 := Some client1), nextId := 2,
        history := history service1 @ [New 1 CameraClient, BusyWrite 1 1, SoundRefWrite 2,
                    LinkToDeath 7],
        mBusy := (\<lambda>_. 1)(0 := 1, 1 := 1), mSoundRef := 2,
        mClient := (\<lambda>_. None)(0 := Some 0, 1 := Some 1)\<rparr>)"
  by (simp add: connect_def connect_locked_def connect_dispatch_def connect_finish_def
      service1_fields getDeviceVersion_two_camera_hal caller_def USE_CALLING_UID_def
      CAMERA_DEVICE_API_VERSION_1_0_def CAMERA_DEVICE_API_VERSION_2_0_def
      CAMERA_DEVICE_API_VERSION_2_1_def new_Client_def allocate_def client1_def
      setCameraBusy_def loadSound_def newMediaPlayer_def NO_ERROR_def OK_def Let_def
      fun_upd_twist)

lemma service2_fields:
  "mNumberOfCameras service2 = 2"
  "mBusy service2 = (\<lambda>_. 1)(0 := 1, 1 := 1)"
  "mClient service2 = (\<lambda>_. None)(0 := Some 0, 1 := Some 1)"
  "mSoundRef service2 = 2"
  "heap service2 = (\<lambda>_. None)(0 := Some client0, 1 := Some client1)"
  "history service2 = history service1 @ [New 1 CameraClient, BusyWrite 1 1, SoundRefWrite 2,
                    LinkToDeath 7]"
  "mProClientList service2 = (\<lambda>_. [])"
  by (simp_all add: service2_def connect_service1 service1_fields)

lemma decStrong_service2:
  "history (decStrong 1 service2) = history service2 @
          [DestructionStarted 1, SoundRefWrite 1, StopWatchingMode 1, RemoveClientByRemote 7,
           UnlinkToDeath (ClientObject 0), BusyWrite 1 0, DestructionStarted 1, Delete 1]"
  "mClient (decStrong 1 service2) = (\<lambda>_. None)(1 := Some 1)"
  "heap (decStrong 1 service2) = (\<lambda>_. None)(0 := Some client0)"
  "mBusy (decStrong 1 service2) = (\<lambda>_. 1)(0 := 1, 1 := 0)"
  "mSoundRef (decStrong 1 service2) = 1"
proof -
  let ?s0 = "update_client 1 (\<lambda>c. c\<lparr>alive := False\<rparr>) service2"
  let ?s3 = "finishCameraOps 1 (releaseSound (markDestructionStarted 1 ?s0))"
  have obj: "heap service2 1 = Some client1"
    by (simp add: service2_fields)
  have obj0: "heap ?s0 1 = Some (client1\<lparr>alive := False\<rparr>)"
    by (simp add: service2_fields)
  have d: "decStrong 1 service2 = free 1 (BasicClient_dtor 1 (Client_dtor 1 ?s0))"
    by (rule decStrong_exclusive [OF obj]) (simp_all add: client_sel)
  have u: "Client_dtor 1 ?s0 = setCameraFree 1 (removeClientByRemote 7 ?s3)"
    using Client_dtor_unfold [OF obj0] by (simp add: client_sel)
  have "kept ?s0 ?s3"
    by (rule kept_trans [OF kept_trans [OF kept_markDestructionStarted
          kept_releaseSound] kept_finishCameraOps])
  then have n: "0 < mNumberOfCameras ?s3"
    by (simp add: kept_fields(1) service2_fields)
  have r: "removeClientByRemote 7 ?s3 =
           ?s3\<lparr>mClient := (mClient ?s3)(0 := None),
             history := history ?s3 @ [RemoveClientByRemote 7, UnlinkToDeath (ClientObject 0)]\<rparr>"
    by (rule removeClientByRemote_first_live [where d = client0, OF n])
       (simp_all add: service2_fields client_sel)
  show "history (decStrong 1 service2) = history service2 @
          [DestructionStarted 1, SoundRefWrite 1, StopWatchingMode 1, RemoveClientByRemote 7,
           UnlinkToDeath (ClientObject 0), BusyWrite 1 0, DestructionStarted 1, Delete 1]"
    by (simp add: d u r BasicClient_dtor_def releaseSound_shared service2_fields client_sel
        del: One_nat_def)
  show "mClient (decStrong 1 service2) = (\<lambda>_. None)(1 := Some 1)"
    by (simp add: d u r BasicClient_dtor_def service2_fields fun_upd_twist del: One_nat_def)
  show "heap (decStrong 1 service2) = (\<lambda>_. None)(0 := Some client0)"
    by (simp add: d u r BasicClient_dtor_def service2_fields fun_upd_twist del: One_nat_def)
  show "mBusy (decStrong 1 service2) = (\<lambda>_. 1)(0 := 1, 1 := 0)"
    by (simp add: d u r service2_fields del: One_nat_def)
  show "mSoundRef (decStrong 1 service2) = 1"
    by (simp add: d u r service2_fields del: One_nat_def)
qed


section \<open>Claims\<close>

subsection \<open>C4: device ids out of range\<close>

text \<open>
  C4, as amended. For every device id outside \<open>[0, mNumberOfCameras)\<close>, \<open>connect\<close>
  returns null and leaves the service as it was; \<open>getCameraInfo\<close> leaves the service
  and the out-parameter as they were and returns \<open>BAD_VALUE\<close> when the HAL module is
  loaded, \<open>NO_INIT\<close> when it is not (that test comes first in the function).
\<close>

theorem out_of_range_id_rejected:
  assumes "cameraId < 0 \<or> mNumberOfCameras s \<le> cameraId"
  shows "connect e cameraClient cameraId clientPackageName clientUid s = (None, s)
       \<and> getCameraInfo cameraId cameraInfo s
           = (if mModule s = None then NO_INIT else BAD_VALUE, cameraInfo, s)"
  using assms by (auto simp: connect_def getCameraInfo_def Let_def split: option.splits)

theorem out_of_range_id_rejected_witness:
  "((5::int) < 0 \<or> mNumberOfCameras service0 \<le> 5)
   \<and> connect caller 7 5 ''pkg.a'' USE_CALLING_UID service0 = (None, service0)
   \<and> getCameraInfo 5 \<lparr>ci_facing = 0, ci_orientation = 0\<rparr> service0
        = (BAD_VALUE, \<lparr>ci_facing = 0, ci_orientation = 0\<rparr>, service0)"
proof -
  have h: "(5::int) < 0 \<or> mNumberOfCameras service0 \<le> 5"
    by (simp add: service0_fields)
  from out_of_range_id_rejected [OF h, of caller 7 "''pkg.a''" USE_CALLING_UID
      "\<lparr>ci_facing = 0, ci_orientation = 0\<rparr>"] h
  show ?thesis by (simp add: service0_fields)
qed

text \<open>
  C4 as stated fails when the HAL module did not load: every id is then out of range
  (the count is 0), and \<open>getCameraInfo\<close> answers \<open>NO_INIT\<close>, not \<open>BAD_VALUE\<close>.
\<close>

theorem getCameraInfo_without_module_counterexample:
  "\<not> (0 \<le> (5::int) \<and> 5 < getNumberOfCameras (started 2 None stale_memory))
   \<and> fst (getCameraInfo 5 \<lparr>ci_facing = 0, ci_orientation = 0\<rparr> (started 2 None stale_memory))
        \<noteq> BAD_VALUE"
  by (simp add: getCameraInfo_def getNumberOfCameras_def started_def onFirstRef_def
      CameraService_ctor_def NO_INIT_def BAD_VALUE_def)

subsection \<open>C9: the slot is busy and its handle is dead\<close>

text \<open>
  C9. If the busy flag of the requested slot is set and the slot's weak handle does
  not promote (it is null, or its client has lost its last strong reference),
  \<open>connect\<close> returns null; the service is left as it was, or with that stale handle
  cleared: no client is constructed and nothing is retried.
\<close>

theorem busy_race_rejected:
  assumes "mBusy s cameraId \<noteq> 0"
      and "case mClient s cameraId of None \<Rightarrow> True | Some p \<Rightarrow> promote (heap s) p = None"
  shows "fst (connect e cameraClient cameraId clientPackageName clientUid s) = None
       \<and> (snd (connect e cameraClient cameraId clientPackageName clientUid s) = s
          \<or> snd (connect e cameraClient cameraId clientPackageName clientUid s)
              = s\<lparr>mClient := (mClient s)(cameraId := None)\<rparr>)"
  using assms
  by (auto simp: connect_def connect_locked_def Let_def split: option.splits)

lemma service1_dying_fields:
  "mBusy service1_dying 0 = 1"
  "mClient service1_dying 0 = Some 0"
  "promote (heap service1_dying) 0 = None"
  "trace service1_dying = [New 0 Camera2Client, LinkToDeath 7]"
  "nextId service1_dying = 1"
  by (simp_all add: service1_dying_def update_client_def service1_fields promote_def trace_def)

theorem busy_race_rejected_witness:
  "mBusy service1_dying 0 \<noteq> 0
   \<and> (case mClient service1_dying 0 of None \<Rightarrow> True
       | Some p \<Rightarrow> promote (heap service1_dying) p = None)
   \<and> fst (connect caller 8 0 ''pkg.b'' USE_CALLING_UID service1_dying) = None
   \<and> constructed (trace (snd (connect caller 8 0 ''pkg.b'' USE_CALLING_UID service1_dying)))
        = [(0, Camera2Client)]"
proof -
  have h1: "mBusy service1_dying 0 \<noteq> 0"
    by (simp add: service1_dying_fields)
  have h2: "case mClient service1_dying 0 of None \<Rightarrow> True
            | Some p \<Rightarrow> promote (heap service1_dying) p = None"
    by (simp add: service1_dying_fields)
  from busy_race_rejected [OF h1 h2, of caller 8 "''pkg.b''" USE_CALLING_UID]
  have "fst (connect caller 8 0 ''pkg.b'' USE_CALLING_UID service1_dying) = None"
    and "trace (snd (connect caller 8 0 ''pkg.b'' USE_CALLING_UID service1_dying))
           = trace service1_dying"
    by auto
  with h1 h2 show ?thesis by (simp add: service1_dying_fields)
qed

subsection \<open>C1: a request for a slot that has a live owner\<close>

text \<open>
  C1, as amended. Let the requested slot hold a weak handle that promotes to a live
  client. If the requesting endpoint is the owner's and the request passes the checks
  that \<open>connect\<close> makes before it looks at the slot (the uid hint is \<open>USE_CALLING_UID\<close>
  or the caller is the service's own process; the module is loaded; the id is in
  range; the policy property is not \<open>"1"\<close>), \<open>connect\<close> returns the existing handle and
  the service is unchanged: no client is constructed and \<open>mSoundRef\<close> is not touched.
  If the endpoint differs, every request gets null and the service is unchanged.
\<close>

theorem reconnect_or_reject:
  assumes "mClient s cameraId = Some p" and "promote (heap s) p = Some c"
  shows "(cameraClient = mRemoteCallback c
            \<and> (clientUid = USE_CALLING_UID \<or> getCallingPid e = getpid e)
            \<and> mModule s \<noteq> None \<and> 0 \<le> cameraId \<and> cameraId < mNumberOfCameras s
            \<and> camera_disabled_property e \<noteq> ''1''
          \<longrightarrow> connect e cameraClient cameraId clientPackageName clientUid s = (Some p, s))
       \<and> (cameraClient \<noteq> mRemoteCallback c
          \<longrightarrow> connect e cameraClient cameraId clientPackageName clientUid s = (None, s))"
  using assms
  by (auto simp: connect_def connect_locked_def Let_def split: option.splits)

lemma service1_owner:
  "mClient service1 0 = Some 0" "promote (heap service1) 0 = Some client0"
  "mRemoteCallback client0 = 7"
  by (simp_all add: service1_fields promote_def client0_def)

theorem reconnect_or_reject_witness:
  "mClient service1 0 = Some 0 \<and> promote (heap service1) 0 = Some client0
   \<and> connect caller 7 0 ''pkg.a'' USE_CALLING_UID service1 = (Some 0, service1)
   \<and> connect caller 8 0 ''pkg.b'' USE_CALLING_UID service1 = (None, service1)"
proof -
  have same: "(7::nat) = mRemoteCallback client0
      \<and> (USE_CALLING_UID = USE_CALLING_UID \<or> getCallingPid caller = getpid caller)
      \<and> mModule service1 \<noteq> None \<and> (0::int) \<le> 0 \<and> 0 < mNumberOfCameras service1
      \<and> camera_disabled_property caller \<noteq> ''1''"
    by (simp add: service1_owner service1_fields caller_def)
  have other: "(8::nat) \<noteq> mRemoteCallback client0"
    by (simp add: service1_owner)
  from reconnect_or_reject [OF service1_owner(1) service1_owner(2),
      of 7 USE_CALLING_UID caller "''pkg.a''"] same
  have a: "connect caller 7 0 ''pkg.a'' USE_CALLING_UID service1 = (Some 0, service1)"
    by blast
  from reconnect_or_reject [OF service1_owner(1) service1_owner(2),
      of 8 USE_CALLING_UID caller "''pkg.b''"] other
  have b: "connect caller 8 0 ''pkg.b'' USE_CALLING_UID service1 = (None, service1)"
    by blast
  from a b service1_owner show ?thesis by simp
qed

text \<open>
  C1 as stated fails for a request of the owner made while the policy property is
  \<open>"1"\<close>: \<open>connect\<close> returns null before it looks at the slot.
\<close>

theorem reconnect_while_disabled_counterexample:
  "mClient service1 0 = Some 0
   \<and> map_option mRemoteCallback (promote (heap service1) 0) = Some 7
   \<and> fst (connect (caller\<lparr>camera_disabled_property := ''1''\<rparr>) 7 0 ''pkg.a''
            USE_CALLING_UID service1) \<noteq> Some 0"
proof -
  have "fst (connect (caller\<lparr>camera_disabled_property := ''1''\<rparr>) 7 0 ''pkg.a''
            USE_CALLING_UID service1) = None"
    by (simp add: connect_def service1_fields caller_def USE_CALLING_UID_def)
  then show ?thesis by (simp add: service1_owner)
qed

subsection \<open>C8: the order of destruction\<close>

text \<open>
  C8. The destructor does not always unregister its client's slot. Endpoint 7 owns
  device 0 (client 0) and connects to device 1 as well: the request constructs
  client 1 and registers it in slot 1. When the last strong reference to client 1
  goes, \<^verbatim>\<open>~Client\<close> runs its steps in the order of the claim (the write of
  \<^verbatim>\<open>mDestructionStarted\<close>, \<^verbatim>\<open>releaseSound\<close>, \<^verbatim>\<open>finishCameraOps\<close>, then
  \<^verbatim>\<open>removeClientByRemote\<close> and, last, \<^verbatim>\<open>setCameraFree(1)\<close>), but \<^verbatim>\<open>findClientUnsafe\<close>
  returns at slot 0, the first live client with endpoint 7, before it reaches the
  stale handle in slot 1. Slot 1 keeps the handle of the destroyed client 1; slot 0,
  whose client 0 is alive, is cleared and its death link removed, while the busy flag
  of device 0 stays set.
\<close>

theorem Client_dtor_shared_endpoint:
  "fst (connect caller 7 1 ''pkg.a'' USE_CALLING_UID service1) = Some 1
   \<and> mClient service2 0 = Some 0 \<and> mClient service2 1 = Some 1
   \<and> map_option alive (heap service2 0) = Some True
   \<and> map_option alive (heap service2 1) = Some True
   \<and> map_option mRemoteCallback (heap service2 0) = Some 7
   \<and> map_option mRemoteCallback (heap service2 1) = Some 7
   \<and> map_option mCameraId (heap service2 0) = Some 0
   \<and> map_option mCameraId (heap service2 1) = Some 1
   \<and> history (decStrong 1 service2) = history service2 @
        [DestructionStarted 1, SoundRefWrite 1, StopWatchingMode 1, RemoveClientByRemote 7,
         UnlinkToDeath (ClientObject 0), BusyWrite 1 0, DestructionStarted 1, Delete 1]
   \<and> heap (decStrong 1 service2) 1 = None
   \<and> mClient (decStrong 1 service2) 1 = Some 1
   \<and> mBusy (decStrong 1 service2) 1 = 0
   \<and> map_option alive (heap (decStrong 1 service2) 0) = Some True
   \<and> mClient (decStrong 1 service2) 0 = None
   \<and> mBusy (decStrong 1 service2) 0 = 1"
  by (simp add: connect_service1 service2_fields decStrong_service2 client_sel
      del: One_nat_def)

subsection \<open>C10: the number of cameras\<close>

text \<open>
  C10, as amended. After start-up and any run of requests, \<open>getNumberOfCameras\<close>
  returns 0 if the HAL module failed to load and otherwise the count the HAL reported,
  clamped down to \<open>MAX_CAMERAS\<close>; it is at most \<open>MAX_CAMERAS\<close>, it never changes, and
  it is non-negative when the HAL's count is (nothing clamps a negative count).
\<close>

theorem getNumberOfCameras_fixed_at_startup:
  "getNumberOfCameras (run rs (started MAX_CAMERAS hal u))
     = (case hal of None \<Rightarrow> 0 | Some m \<Rightarrow> min (get_number_of_cameras m) (int MAX_CAMERAS))
   \<and> getNumberOfCameras (run rs (started MAX_CAMERAS hal u)) \<le> int MAX_CAMERAS
   \<and> ((case hal of None \<Rightarrow> True | Some m \<Rightarrow> 0 \<le> get_number_of_cameras m)
        \<longrightarrow> 0 \<le> getNumberOfCameras (run rs (started MAX_CAMERAS hal u)))"
  by (auto simp: getNumberOfCameras_def started_mNumberOfCameras split: option.splits)

theorem getNumberOfCameras_fixed_at_startup_witness:
  "(case Some two_camera_hal of None \<Rightarrow> True | Some m \<Rightarrow> 0 \<le> get_number_of_cameras m)
   \<and> getNumberOfCameras
        (run [Connect caller 7 0 ''pkg.a'' USE_CALLING_UID, DecStrong 0]
           (started 2 (Some two_camera_hal) stale_memory)) = 2"
proof -
  have h: "case Some two_camera_hal of None \<Rightarrow> True | Some m \<Rightarrow> 0 \<le> get_number_of_cameras m"
    by (simp add: two_camera_hal_def)
  from getNumberOfCameras_fixed_at_startup
    [of "[Connect caller 7 0 ''pkg.a'' USE_CALLING_UID, DecStrong 0]" 2 "Some two_camera_hal" stale_memory]
  show ?thesis using h by (simp add: two_camera_hal_def)
qed

text \<open>
  C10 as stated fails for a HAL that reports a negative count: the value is stored
  and returned as it is.
\<close>

theorem negative_count_counterexample:
  "\<not> (0 \<le> getNumberOfCameras (started 2 (Some negative_count_hal) stale_memory)
      \<and> getNumberOfCameras (started 2 (Some negative_count_hal) stale_memory) \<le> 2)"
  by (simp add: getNumberOfCameras_def started_mNumberOfCameras negative_count_hal_def)

subsection \<open>C6: the reference count of the shared sounds\<close>

text \<open>
  C6. In every state the service reaches from start-up by a run of requests,
  \<open>mSoundRef\<close> equals the number of live exclusive clients, and so is never negative.
  Constructing a \<open>Client\<close> adds one reference and \<open>~Client\<close> removes one; whenever
  \<open>releaseSound\<close> brings the count to zero, every sound player is cleared.
\<close>

theorem sound_refcount_invariant:
  "mSoundRef (run rs (started MAX_CAMERAS hal u))
     = int (live_clients (run rs (started MAX_CAMERAS hal u)))
   \<and> 0 \<le> mSoundRef (run rs (started MAX_CAMERAS hal u))
   \<and> mSoundRef (snd (new_Client e v b n i f pid uid sp s)) = mSoundRef s + 1
   \<and> (heap s p = Some c \<longrightarrow> mSoundRef (Client_dtor p s) = mSoundRef s - 1)
   \<and> (mSoundRef (releaseSound s) = 0 \<longrightarrow> (\<forall>k. mSoundPlayer (releaseSound s) k = None))"
proof -
  have "store_ok (run rs (started MAX_CAMERAS hal u))"
    by (rule store_ok_run [OF store_ok_started])
  then have "mSoundRef (run rs (started MAX_CAMERAS hal u))
     = int (live_clients (run rs (started MAX_CAMERAS hal u)))"
    by (simp add: store_ok_def)
  then show ?thesis
    by (auto simp: Client_dtor_fields(2) releaseSound_zero)
qed

lemma run_connect_service1:
  "run [Connect caller 7 0 ''pkg.a'' USE_CALLING_UID] (started 2 (Some two_camera_hal) stale_memory)
     = service1"
  by (simp add: service1_def service0_def)

theorem sound_refcount_invariant_witness:
  "heap service1 0 = Some client0
   \<and> mSoundRef (releaseSound service1) = 0
   \<and> mSoundRef (run [Connect caller 7 0 ''pkg.a'' USE_CALLING_UID]
                  (started 2 (Some two_camera_hal) stale_memory)) = 1
   \<and> live_clients (run [Connect caller 7 0 ''pkg.a'' USE_CALLING_UID]
                  (started 2 (Some two_camera_hal) stale_memory)) = 1
   \<and> mSoundRef (Client_dtor 0 service1) = 0
   \<and> mSoundPlayer (releaseSound service1) SOUND_SHUTTER = None"
proof -
  have obj: "heap service1 0 = Some client0"
    by (simp add: service1_fields)
  have zero: "mSoundRef (releaseSound service1) = 0"
    by (simp add: service1_fields)
  have one: "mSoundRef (run [Connect caller 7 0 ''pkg.a'' USE_CALLING_UID]
                  (started 2 (Some two_camera_hal) stale_memory)) = 1"
    by (simp only: run_connect_service1 service1_fields)
  note T = sound_refcount_invariant [where rs = "[Connect caller 7 0 ''pkg.a'' USE_CALLING_UID]"
      and MAX_CAMERAS = 2 and hal = "Some two_camera_hal" and u = stale_memory
      and s = service1 and p = 0 and c = client0]
  from T one have live: "live_clients (run [Connect caller 7 0 ''pkg.a'' USE_CALLING_UID]
                  (started 2 (Some two_camera_hal) stale_memory)) = 1"
    by simp
  from T obj have dtor: "mSoundRef (Client_dtor 0 service1) = 0"
    by (simp add: service1_fields)
  from T zero have pl: "mSoundPlayer (releaseSound service1) SOUND_SHUTTER = None"
    by blast
  from obj zero one live dtor pl show ?thesis by blast
qed

subsection \<open>C5: dispatch on the device version\<close>

text \<open>
  C5. Let a request pass the checks of \<open>connect\<close> and find its slot without a live
  client and not busy, so that the device version \<open>dv\<close> is resolved. If \<open>dv\<close> is 1.0,
  exactly one client is constructed and it is a \<open>CameraClient\<close>; if \<open>dv\<close> is 2.0 or
  2.1, exactly one and it is a \<open>Camera2Client\<close>; the handle returned is that client
  when its \<open>initialize\<close> succeeds and null otherwise. For every other \<open>dv\<close> (\<open>-1\<close>,
  other negative values, unknown versions) the result is null and no client is
  constructed.
\<close>

theorem version_dispatch:
  fixes e :: env and s :: service and m :: camera_module
    and cameraClient :: ibinder and cameraId :: int
    and clientPackageName :: string and clientUid :: int
  defines "dv \<equiv> fst (getDeviceVersion m cameraId (- 1))"
  defines "r \<equiv> connect e cameraClient cameraId clientPackageName clientUid s"
  assumes "clientUid = USE_CALLING_UID \<or> getCallingPid e = getpid e"
    and "mModule s = Some m"
    and "0 \<le> cameraId" "cameraId < mNumberOfCameras s"
    and "camera_disabled_property e \<noteq> ''1''"
    and "case mClient s cameraId of None \<Rightarrow> True | Some p \<Rightarrow> promote (heap s) p = None"
    and "mBusy s cameraId = 0"
  shows "(dv = CAMERA_DEVICE_API_VERSION_1_0 \<longrightarrow>
            constructed (trace (snd r)) = constructed (trace s) @ [(nextId s, CameraClient)]
            \<and> fst r = (if initialize_status e = OK then Some (nextId s) else None)
            \<and> (initialize_status e = OK \<longrightarrow>
                 map_option variant (heap (snd r) (nextId s)) = Some CameraClient))
       \<and> (dv = CAMERA_DEVICE_API_VERSION_2_0 \<or> dv = CAMERA_DEVICE_API_VERSION_2_1 \<longrightarrow>
            constructed (trace (snd r)) = constructed (trace s) @ [(nextId s, Camera2Client)]
            \<and> fst r = (if initialize_status e = OK then Some (nextId s) else None)
            \<and> (initialize_status e = OK \<longrightarrow>
                 map_option variant (heap (snd r) (nextId s)) = Some Camera2Client))
       \<and> (dv \<noteq> CAMERA_DEVICE_API_VERSION_1_0 \<and> dv \<noteq> CAMERA_DEVICE_API_VERSION_2_0
            \<and> dv \<noteq> CAMERA_DEVICE_API_VERSION_2_1 \<longrightarrow>
            fst r = None \<and> constructed (trace (snd r)) = constructed (trace s)
            \<and> heap (snd r) = heap s \<and> nextId (snd r) = nextId s)"
proof -
  from connect_reaches_dispatch [OF assms(3-9)] obtain f where
    r: "r = connect_dispatch e m cameraClient cameraId clientPackageName
             (if clientUid = USE_CALLING_UID then getCallingUid e else clientUid)
             (s\<lparr>mClient := f\<rparr>)"
    unfolding r_def by blast
  have a: "dv = CAMERA_DEVICE_API_VERSION_1_0 \<longrightarrow>
            constructed (trace (snd r)) = constructed (trace s) @ [(nextId s, CameraClient)]
            \<and> fst r = (if initialize_status e = OK then Some (nextId s) else None)
            \<and> (initialize_status e = OK \<longrightarrow>
                 map_option variant (heap (snd r) (nextId s)) = Some CameraClient)"
    unfolding r dv_def
    using connect_dispatch_known_result [where v = CameraClient and m = m and i = cameraId
        and s = "s\<lparr>mClient := f\<rparr>"]
    by simp
  have b: "dv = CAMERA_DEVICE_API_VERSION_2_0 \<or> dv = CAMERA_DEVICE_API_VERSION_2_1 \<longrightarrow>
            constructed (trace (snd r)) = constructed (trace s) @ [(nextId s, Camera2Client)]
            \<and> fst r = (if initialize_status e = OK then Some (nextId s) else None)
            \<and> (initialize_status e = OK \<longrightarrow>
                 map_option variant (heap (snd r) (nextId s)) = Some Camera2Client)"
    unfolding r dv_def
    using connect_dispatch_known_result [where v = Camera2Client and m = m and i = cameraId
        and s = "s\<lparr>mClient := f\<rparr>"]
    by simp
  have c: "dv \<noteq> CAMERA_DEVICE_API_VERSION_1_0 \<and> dv \<noteq> CAMERA_DEVICE_API_VERSION_2_0
            \<and> dv \<noteq> CAMERA_DEVICE_API_VERSION_2_1 \<longrightarrow>
            fst r = None \<and> constructed (trace (snd r)) = constructed (trace s)
            \<and> heap (snd r) = heap s \<and> nextId (snd r) = nextId s"
    unfolding r dv_def by (simp add: connect_dispatch_unknown)
  from a b c show ?thesis by blast
qed

lemma service_unknown_fields:
  "mModule service_unknown = Some unknown_version_hal"
  "mNumberOfCameras service_unknown = 2"
  "mBusy service_unknown = (\<lambda>_. 1)(0 := 0, 1 := 0)"
  "mClient service_unknown = (\<lambda>_. None)"
  "nextId service_unknown = 0"
  "trace service_unknown = []"
  by (simp_all add: service_unknown_def started_def onFirstRef_def CameraService_ctor_def
      stale_memory_def unknown_version_hal_def setCameraFree_from.simps setCameraFree_def Let_def
      trace_def)

lemma getDeviceVersion_unknown_version_hal:
  "fst (getDeviceVersion unknown_version_hal 0 f) = - 1"
  "fst (getDeviceVersion unknown_version_hal 1 f) = 768"
  by (simp_all add: getDeviceVersion_def unknown_version_hal_def OK_def
      CAMERA_MODULE_API_VERSION_2_0_def)

lemma caller_fields:
  "getCallingPid caller = 1000" "getpid caller = 500" "camera_disabled_property caller = ''0''"
  "initialize_status caller = OK"
  by (simp_all add: caller_def)

theorem version_dispatch_witness:
  "fst (getDeviceVersion two_camera_hal 1 (- 1)) = CAMERA_DEVICE_API_VERSION_1_0
   \<and> fst (connect caller 7 1 ''pkg.a'' USE_CALLING_UID service0) = Some 0
   \<and> map_option variant (heap (snd (connect caller 7 1 ''pkg.a'' USE_CALLING_UID service0)) 0)
        = Some CameraClient
   \<and> fst (getDeviceVersion two_camera_hal 0 (- 1)) = CAMERA_DEVICE_API_VERSION_2_1
   \<and> fst (connect caller 7 0 ''pkg.a'' USE_CALLING_UID service0) = Some 0
   \<and> map_option variant (heap (snd (connect caller 7 0 ''pkg.a'' USE_CALLING_UID service0)) 0)
        = Some Camera2Client
   \<and> fst (getDeviceVersion unknown_version_hal 0 (- 1)) = - 1
   \<and> fst (connect caller 7 0 ''pkg.a'' USE_CALLING_UID service_unknown) = None
   \<and> constructed (trace (snd (connect caller 7 0 ''pkg.a'' USE_CALLING_UID service_unknown))) = []"
proof -
  have v1: "fst (getDeviceVersion two_camera_hal 1 (- 1)) = CAMERA_DEVICE_API_VERSION_1_0"
    by (simp add: getDeviceVersion_two_camera_hal CAMERA_DEVICE_API_VERSION_1_0_def)
  have v2: "fst (getDeviceVersion two_camera_hal 0 (- 1)) = CAMERA_DEVICE_API_VERSION_2_1"
    by (simp add: getDeviceVersion_two_camera_hal CAMERA_DEVICE_API_VERSION_2_1_def)
  have v3: "fst (getDeviceVersion unknown_version_hal 0 (- 1)) = - 1"
    by (simp add: getDeviceVersion_unknown_version_hal)
  have v3': "fst (getDeviceVersion unknown_version_hal 0 (- 1)) \<noteq> CAMERA_DEVICE_API_VERSION_1_0
      \<and> fst (getDeviceVersion unknown_version_hal 0 (- 1)) \<noteq> CAMERA_DEVICE_API_VERSION_2_0
      \<and> fst (getDeviceVersion unknown_version_hal 0 (- 1)) \<noteq> CAMERA_DEVICE_API_VERSION_2_1"
    by (simp add: getDeviceVersion_unknown_version_hal CAMERA_DEVICE_API_VERSION_1_0_def
        CAMERA_DEVICE_API_VERSION_2_0_def CAMERA_DEVICE_API_VERSION_2_1_def)
  have ok: "initialize_status caller = OK" by (simp add: caller_fields)
  note A = version_dispatch [where e = caller and s = service0 and m = two_camera_hal
      and cameraId = 1 and clientUid = USE_CALLING_UID and cameraClient = 7
      and clientPackageName = "''pkg.a''"]
  have a: "fst (connect caller 7 1 ''pkg.a'' USE_CALLING_UID service0) = Some 0
      \<and> map_option variant (heap (snd (connect caller 7 1 ''pkg.a'' USE_CALLING_UID service0)) 0)
        = Some CameraClient"
    using A v1 ok by (simp add: service0_fields caller_fields)
  note B = version_dispatch [where e = caller and s = service0 and m = two_camera_hal
      and cameraId = 0 and clientUid = USE_CALLING_UID and cameraClient = 7
      and clientPackageName = "''pkg.a''"]
  have b: "fst (connect caller 7 0 ''pkg.a'' USE_CALLING_UID service0) = Some 0
      \<and> map_option variant (heap (snd (connect caller 7 0 ''pkg.a'' USE_CALLING_UID service0)) 0)
        = Some Camera2Client"
    using B v2 ok by (simp add: service0_fields caller_fields)
  note C = version_dispatch [where e = caller and s = service_unknown and m = unknown_version_hal
      and cameraId = 0 and clientUid = USE_CALLING_UID and cameraClient = 7
      and clientPackageName = "''pkg.a''"]
  have c: "fst (connect caller 7 0 ''pkg.a'' USE_CALLING_UID service_unknown) = None
      \<and> constructed (trace (snd (connect caller 7 0 ''pkg.a'' USE_CALLING_UID service_unknown))) = []"
    using C v3' by (simp add: service_unknown_fields caller_fields)
  from v1 v2 v3 a b c show ?thesis by blast
qed

subsection \<open>C2: how long the busy flag stays set\<close>




subsection \<open>C7: revocation of the camera operation\<close>

text \<open>
  C7. When the policy callback reports \<open>OP_CAMERA\<close> and \<^verbatim>\<open>checkOp\<close> no longer allows it,
  \<^verbatim>\<open>opChanged\<close> on an exclusive client adds to the history of the service exactly: the
  write of the caller's pid to \<^verbatim>\<open>mClientPid\<close>, then the error notification
  (\<open>CAMERA_MSG_ERROR\<close>, \<open>CAMERA_ERROR_RELEASED\<close>) to the client's endpoint, then the
  teardown, which is the entry to \<^verbatim>\<open>removeClientByRemote\<close> for that endpoint, at most
  one \<^verbatim>\<open>unlinkToDeath\<close>, and the write of 0 to the device's busy flag. Afterwards the
  stored pid is the caller's and the busy flag is clear. \<^verbatim>\<open>OpsCallback::opChanged\<close>
  forwards to it as long as the client is alive.
\<close>

theorem revocation_order:
  assumes obj: "heap s p = Some c" and excl: "variant c \<noteq> ProCamera2Client"
    and revoked: "checkOp_result e \<noteq> MODE_ALLOWED"
  shows "(\<exists>t. history (opChanged e p OP_CAMERA packageName s)
              = history s
                @ [ClientPidWrite p (getCallingPid e),
                   NotifyCallback (mRemoteCallback c) CAMERA_MSG_ERROR CAMERA_ERROR_RELEASED 0,
                   RemoveClientByRemote (mRemoteCallback c)]
                @ t @ [BusyWrite (mCameraId c) 0]
            \<and> (t = [] \<or> (\<exists>x. t = [UnlinkToDeath x])))
       \<and> map_option mClientPid (heap (opChanged e p OP_CAMERA packageName s) p)
           = Some (getCallingPid e)
       \<and> mBusy (opChanged e p OP_CAMERA packageName s) = (mBusy s)(mCameraId c := 0)
       \<and> (alive c \<longrightarrow> OpsCallback_opChanged e p OP_CAMERA packageName s
                         = opChanged e p OP_CAMERA packageName s)"
proof -
  let ?c' = "c\<lparr>mClientPid := getCallingPid e\<rparr>"
  let ?s1 = "stampClientPid p (getCallingPid e) s"
  let ?s2 = "notifyError p ?s1"
  have h1: "heap ?s1 p = Some ?c'"
    using obj by simp
  have n: "?s2 = ?s1\<lparr>history := history ?s1 @
             [NotifyCallback (mRemoteCallback c) CAMERA_MSG_ERROR CAMERA_ERROR_RELEASED 0]\<rparr>"
    using excl by (cases "variant c") (simp_all add: notifyError_def h1 del: stampClientPid_fields)
  have h2: "heap ?s2 p = Some ?c'"
    using h1 by (simp del: stampClientPid_fields)
  have hist2: "history ?s2 = history s @ [ClientPidWrite p (getCallingPid e),
             NotifyCallback (mRemoteCallback c) CAMERA_MSG_ERROR CAMERA_ERROR_RELEASED 0]"
    by (subst n) simp
  have op: "opChanged e p OP_CAMERA packageName s = Client_disconnect p ?s2"
    using revoked excl h2
    by (cases "variant c") (simp_all add: opChanged_def disconnect_def del: stampClientPid_fields notifyError_fields)
  obtain t where t: "history (Client_disconnect p ?s2)
             = history ?s2 @ RemoveClientByRemote (mRemoteCallback ?c') # t @ [BusyWrite (mCameraId ?c') 0]"
      "t = [] \<or> (\<exists>x. t = [UnlinkToDeath x])"
    using Client_disconnect_history [OF h2] by blast
  have a: "history (opChanged e p OP_CAMERA packageName s)
              = history s
                @ [ClientPidWrite p (getCallingPid e),
                   NotifyCallback (mRemoteCallback c) CAMERA_MSG_ERROR CAMERA_ERROR_RELEASED 0,
                   RemoveClientByRemote (mRemoteCallback c)]
                @ t @ [BusyWrite (mCameraId c) 0]"
    unfolding op t(1) hist2 by simp
  have b: "map_option mClientPid (heap (opChanged e p OP_CAMERA packageName s) p)
           = Some (getCallingPid e)"
    unfolding op using obj by simp
  have c: "mBusy (opChanged e p OP_CAMERA packageName s) = (mBusy s)(mCameraId c := 0)"
    unfolding op using Client_disconnect_mBusy [OF h2] by simp
  have d: "alive c \<longrightarrow> OpsCallback_opChanged e p OP_CAMERA packageName s
                         = opChanged e p OP_CAMERA packageName s"
    using obj by (simp add: OpsCallback_opChanged_def promote_def)
  from a t(2) b c d show ?thesis by blast
qed

theorem revocation_order_witness:
  "heap service1 0 = Some client0 \<and> variant client0 \<noteq> ProCamera2Client
   \<and> checkOp_result (caller\<lparr>checkOp_result := 1\<rparr>) \<noteq> MODE_ALLOWED
   \<and> take 9 (history (opChanged (caller\<lparr>checkOp_result := 1\<rparr>) 0 OP_CAMERA ''pkg.a'' service1))
        = history service1 @
          [ClientPidWrite 0 1000,
           NotifyCallback 7 CAMERA_MSG_ERROR CAMERA_ERROR_RELEASED 0,
           RemoveClientByRemote 7]
   \<and> last (history (opChanged (caller\<lparr>checkOp_result := 1\<rparr>) 0 OP_CAMERA ''pkg.a'' service1))
        = BusyWrite 0 0
   \<and> mBusy service1 0 = 1
   \<and> mBusy (opChanged (caller\<lparr>checkOp_result := 1\<rparr>) 0 OP_CAMERA ''pkg.a'' service1) 0 = 0"
proof -
  have obj: "heap service1 0 = Some client0" by (simp add: service1_fields)
  have excl: "variant client0 \<noteq> ProCamera2Client" by (simp add: client0_def)
  have rev: "checkOp_result (caller\<lparr>checkOp_result := 1\<rparr>) \<noteq> MODE_ALLOWED"
    by (simp add: MODE_ALLOWED_def)
  have rc: "mRemoteCallback client0 = 7" "mCameraId client0 = 0"
      "getCallingPid (caller\<lparr>checkOp_result := 1\<rparr>) = 1000"
    by (simp_all add: client0_def caller_def)
  note T = revocation_order [OF obj excl rev, where packageName = "''pkg.a''"]
  from T obtain t where t:
    "history (opChanged (caller\<lparr>checkOp_result := 1\<rparr>) 0 OP_CAMERA ''pkg.a'' service1)
       = history service1 @ [ClientPidWrite 0 1000,
           NotifyCallback 7 CAMERA_MSG_ERROR CAMERA_ERROR_RELEASED 0,
           RemoveClientByRemote 7] @ t @ [BusyWrite 0 0]"
    unfolding rc by blast
  have a: "take 9 (history (opChanged (caller\<lparr>checkOp_result := 1\<rparr>) 0 OP_CAMERA ''pkg.a'' service1))
        = history service1 @
          [ClientPidWrite 0 1000,
           NotifyCallback 7 CAMERA_MSG_ERROR CAMERA_ERROR_RELEASED 0,
           RemoveClientByRemote 7]"
    unfolding t by (simp add: service1_fields)
  have b: "last (history (opChanged (caller\<lparr>checkOp_result := 1\<rparr>) 0 OP_CAMERA ''pkg.a'' service1))
        = BusyWrite 0 0"
    unfolding t by simp
  from T have c: "mBusy (opChanged (caller\<lparr>checkOp_result := 1\<rparr>) 0 OP_CAMERA ''pkg.a'' service1) 0 = 0"
    unfolding rc by simp
  have d: "mBusy service1 0 = 1" by (simp add: service1_fields)
  from obj excl rev a b c d show ?thesis by blast
qed

subsection \<open>C3: death of a remote endpoint\<close>

lemma new_ProClient_mProClientList [simp]:
  "mProClientList (snd (new_ProClient b n i f pid uid sp s)) = mProClientList s"
  by (simp add: new_ProClient_def)

lemma connectPro_service0:
  "fst (connectPro caller 9 0 service0) = Some 0"
  "heap service_observed = (\<lambda>_. None)(0 := Some observer0)"
  "mClient service_observed = (\<lambda>_. None)"
  "mProClientList service_observed = (\<lambda>_. [])(0 := [0])"
  "mNumberOfCameras service_observed = 2"
  "trace service_observed = [New 0 ProCamera2Client, LinkToDeath 9]"
  by (simp_all add: service_observed_def connectPro_def service0_fields
      getDeviceVersion_two_camera_hal caller_def split_beta Let_def observer0_def
      CAMERA_DEVICE_API_VERSION_1_0_def CAMERA_DEVICE_API_VERSION_2_0_def
      CAMERA_DEVICE_API_VERSION_2_1_def OK_def trace_def)

lemma findClientUnsafe_service_observed:
  "findClientUnsafe 9 service_observed = (None, - 1, service_observed\<lparr>mClient := \<lambda>_. None\<rparr>)"
proof -
  have "findClientUnsafe_from 9 0 service_observed
          = (None, - 1, service_observed\<lparr>mClient := sweep service_observed 0\<rparr>)"
    by (rule findClientUnsafe_from_no_match) (simp add: connectPro_service0)
  moreover have "sweep service_observed 0 = (\<lambda>_. None)"
    by (simp add: sweep_def connectPro_service0 fun_eq_iff)
  ultimately show ?thesis by (simp add: findClientUnsafe_def)
qed

lemma findProClientUnsafe_service_observed:
  "fst (findProClientUnsafe 9 (service_observed\<lparr>mClient := \<lambda>_. None\<rparr>)) = Some 0"
  "fst (findProClientUnsafe 9 service_observed) = Some 0"
  by (simp_all add: findProClientUnsafe_def findProClientUnsafe_from.simps connectPro_service0
      promote_def observer0_def Let_def)

text \<open>
  C3, at the input where the code departs from it. An observer connects with endpoint
  9 to device 0, and the service links itself to the death of that endpoint. When the
  endpoint dies, \<open>binderDied\<close> looks only among the exclusive clients
  (\<open>getClientByRemote\<close> calls \<open>findClientUnsafe\<close> alone): it finds nothing and makes
  no call, although the observer is alive, matches the endpoint, and is found by the
  lookup that \<open>removeClientByRemote\<close> uses. Had its \<open>disconnect\<close> been invoked, the
  death link would have been removed.
\<close>

theorem observer_death_ignored:
  "fst (connectPro caller 9 0 service0) = Some 0
   \<and> trace service_observed = [New 0 ProCamera2Client, LinkToDeath 9]
   \<and> map_option mRemoteCallback (promote (heap service_observed) 0) = Some 9
   \<and> fst (findProClientUnsafe 9 service_observed) = Some 0
   \<and> fst (getClientByRemote 9 service_observed) = None
   \<and> trace (binderDied 9 service_observed) = trace service_observed
   \<and> trace (disconnect 0 service_observed)
        = trace service_observed @ [UnlinkToDeath (RemoteBinder 9)]"
proof -
  have a: "fst (getClientByRemote 9 service_observed) = None"
    by (simp add: getClientByRemote_def findClientUnsafe_service_observed)
  have b: "trace (binderDied 9 service_observed) = trace service_observed"
    by (simp add: binderDied_def getClientByRemote_def findClientUnsafe_service_observed)
  obtain g where g: "snd (findProClientUnsafe 9 (service_observed\<lparr>mClient := \<lambda>_. None\<rparr>))
      = service_observed\<lparr>mClient := \<lambda>_. None, mProClientList := g\<rparr>"
    using findProClientUnsafe_from_form [of 9 0 None "service_observed\<lparr>mClient := \<lambda>_. None\<rparr>"]
    by (auto simp: findProClientUnsafe_def)
  have fp: "findProClientUnsafe 9 (service_observed\<lparr>mClient := \<lambda>_. None\<rparr>)
      = (Some 0, service_observed\<lparr>mClient := \<lambda>_. None, mProClientList := g\<rparr>)"
    using g findProClientUnsafe_service_observed(1) by (metis prod.collapse)
  have "history (removeClientByRemote 9 service_observed) =
      history service_observed @ [RemoveClientByRemote 9, UnlinkToDeath (RemoteBinder 9)]"
    by (simp add: removeClientByRemote_unfold findClientUnsafe_service_observed fp
        connectPro_service0 observer0_def)
  then have c: "trace (disconnect 0 service_observed)
        = trace service_observed @ [UnlinkToDeath (RemoteBinder 9)]"
    by (simp add: disconnect_def ProClient_disconnect_def BasicClient_disconnect_def
        connectPro_service0 observer0_def trace_def)
  have d: "map_option mRemoteCallback (promote (heap service_observed) 0) = Some 9"
    by (simp add: connectPro_service0 promote_def observer0_def)
  from a b c d show ?thesis
    by (simp add: connectPro_service0 findProClientUnsafe_service_observed)
qed

end
